theory Spec2Isabelle
  imports Main
begin

section \<open>Strings, exceptions and the outside world\<close>

text \<open>
  A Python \<open>str\<close> is a sequence of Unicode code points, so a string is a list of code
  point numbers. \<open>lit\<close> turns an ASCII literal of the source into such a list.
\<close>

type_synonym pystr = "nat list"

definition lit :: "string \<Rightarrow> pystr" where
  "lit s = map of_char s"

text \<open>
  The exceptions that reach the handlers of the class. \<open>ValueError\<close> stands for the
  class and its subclasses, \<open>OSError\<close> for the operating system errors other than
  \<open>FileNotFoundError\<close>, \<open>LibraryError\<close> for what pytube and urllib raise.
  \<open>CalledProcessError\<close> carries the return code, the command and the captured
  output, which is \<open>None\<close> when the caller does not ask for a capture.
  \<open>CineNotesException\<close> is imported from \<open>cine_notes.exception\<close>; every raise site
  passes it a message and the \<open>sys\<close> module, and the message is what is kept here.
\<close>

datatype pyexn =
    ValueError pystr
  | TypeError pystr
  | AttributeError pystr
  | FileNotFoundError pystr
  | OSError pystr
  | CalledProcessError int "pystr list" "pystr option"
  | LibraryError pystr
  | CineNotesException pystr

text \<open>
  What the program does to the outside: log lines, calls of \<open>os.makedirs\<close>, calls of
  \<open>stream.download\<close> (stream, output path, file name) and launches of an external
  command. The world is the set of directories that exist and the calls made so far.
\<close>

type_synonym stream = nat

datatype event =
    LogInfo pystr
  | Makedirs pystr
  | Download stream pystr pystr
  | Run "pystr list"

record world =
  dirs :: "pystr set"
  trace :: "event list"

text \<open>
  The Python runtime and the libraries, as far as the class calls them. None of this is
  code of the repository, so it is a parameter of every operation:
  \<^item> \<open>str_isalnum\<close>, \<open>str_isspace\<close>: the Unicode tables behind \<open>str.isalnum\<close> and
    \<open>str.strip\<close>;
  \<^item> \<open>os_path_abspath\<close>, \<open>os_path_join\<close>: the platform's path functions;
  \<^item> \<open>mkdir_outcome\<close>: what \<open>os.makedirs\<close> does for a path that is not yet a
    directory: the exception it raises, if any, and the intermediate directories it
    has created on the way;
  \<^item> \<open>YouTube\<close>, \<open>get_highest_resolution\<close>, \<open>yt_title\<close>, \<open>stream_download\<close>: pytube
    (the constructor raises or not; the stream query raises, finds no stream or
    returns one; the title is fetched or not; the download raises or returns the path
    of the stored file);
  \<^item> \<open>popen\<close>: launching a command either raises or lets the process run to its
    return code and the diagnostic text it wrote.
  Every outcome may depend on the world at the time of the call. The download and the
  decoder write files into directories that exist; they create and remove no
  directory, so only \<open>os.makedirs\<close> changes the set of directories.
\<close>

record env =
  str_isalnum :: "nat \<Rightarrow> bool"
  str_isspace :: "nat \<Rightarrow> bool"
  os_path_abspath :: "pystr \<Rightarrow> pystr"
  os_path_join :: "pystr \<Rightarrow> pystr \<Rightarrow> pystr"
  mkdir_outcome :: "world \<Rightarrow> pystr \<Rightarrow> pyexn option \<times> pystr set"
  YouTube :: "world \<Rightarrow> pystr \<Rightarrow> pyexn option"
  get_highest_resolution :: "world \<Rightarrow> pystr \<Rightarrow> pyexn + stream option"
  yt_title :: "world \<Rightarrow> pystr \<Rightarrow> pyexn + pystr"
  stream_download :: "world \<Rightarrow> stream \<Rightarrow> pystr \<Rightarrow> pystr \<Rightarrow> pyexn + pystr"
  popen :: "world \<Rightarrow> pystr list \<Rightarrow> pyexn + int \<times> pystr"

section \<open>The filename sanitizer\<close>

text \<open>
  \<^verbatim>\<open>"".join(c for c in name if c.isalnum() or c in (' ', '.', '_', '-')).strip()\<close>
\<close>

definition keep_char :: "env \<Rightarrow> nat \<Rightarrow> bool" where
  "keep_char E c \<longleftrightarrow> str_isalnum E c \<or> c \<in> set (lit '' ._-'')"

definition str_strip :: "env \<Rightarrow> pystr \<Rightarrow> pystr" where
  "str_strip E s = rev (dropWhile (str_isspace E) (rev (dropWhile (str_isspace E) s)))"

definition sanitize_filename :: "env \<Rightarrow> pystr \<Rightarrow> pystr" where
  "sanitize_filename E name = str_strip E (filter (keep_char E) name)"

section \<open>The session and its operations\<close>

text \<open>
  The attributes of a \<open>YouTubeVideoProcessor\<close>. The four paths are \<open>None\<close> until
  \<open>download_video\<close> assigns them.
\<close>

record session =
  youtube_url :: pystr
  output_base_dir :: pystr
  video_filename :: "pystr option"
  video_dir :: "pystr option"
  audio_dir :: "pystr option"
  frames_dir :: "pystr option"

definition logging_info :: "pystr \<Rightarrow> world \<Rightarrow> world" where
  "logging_info msg w = w\<lparr>trace := trace w @ [LogInfo msg]\<rparr>"

text \<open>An optional path inside an f-string: \<open>None\<close> is printed as \<open>None\<close>.\<close>

definition fmt :: "pystr option \<Rightarrow> pystr" where
  "fmt v = (case v of None \<Rightarrow> lit ''None'' | Some p \<Rightarrow> p)"

text \<open>
  \<open>os.makedirs(p, exist_ok=True)\<close>: the call is recorded; an existing directory is
  left alone and is no error; otherwise the environment decides whether the call
  raises, and the directories it has made are added. Returns the exception, if any.
\<close>

definition os_makedirs :: "env \<Rightarrow> pystr \<Rightarrow> world \<Rightarrow> pyexn option \<times> world" where
  "os_makedirs E p w =
     (let w1 = w\<lparr>trace := trace w @ [Makedirs p]\<rparr> in
      if p \<in> dirs w then (None, w1)
      else (case mkdir_outcome E w p of
              (None, made) \<Rightarrow> (None, w1\<lparr>dirs := insert p (dirs w \<union> made)\<rparr>)
            | (Some e, made) \<Rightarrow> (Some e, w1\<lparr>dirs := dirs w \<union> made\<rparr>)))"

text \<open>
  \<open>subprocess.run(cmd, check=True)\<close>, with no capture of the output: a launch that
  raises passes the exception on, a non-zero return code raises
  \<open>CalledProcessError\<close> without output.
\<close>

definition subprocess_run :: "env \<Rightarrow> pystr list \<Rightarrow> world \<Rightarrow> pyexn option \<times> world" where
  "subprocess_run E cmd w =
     (let w1 = w\<lparr>trace := trace w @ [Run cmd]\<rparr> in
      case popen E w cmd of
        Inl e \<Rightarrow> (Some e, w1)
      | Inr (rc, diag) \<Rightarrow>
          if rc \<noteq> 0 then (Some (CalledProcessError rc cmd None), w1) else (None, w1))"

text \<open>
  The constructor. Its handler turns every exception of the body into
  \<open>CineNotesException("Failed to initialize YouTubeVideoProcessor", sys)\<close>.
\<close>

definition init_handler :: "pyexn \<Rightarrow> pyexn" where
  "init_handler e = CineNotesException (lit ''Failed to initialize YouTubeVideoProcessor'')"

definition init :: "env \<Rightarrow> pystr \<Rightarrow> pystr \<Rightarrow> world \<Rightarrow> (pyexn + session) \<times> world" where
  "init E url base w =
     (let root = os_path_abspath E base in
      case os_makedirs E root w of
        (Some e, w1) \<Rightarrow> (Inl (init_handler e), w1)
      | (None, w1) \<Rightarrow>
          (Inr \<lparr>youtube_url = url, output_base_dir = root, video_filename = None,
                video_dir = None, audio_dir = None, frames_dir = None\<rparr>,
           logging_info
             (lit ''Initialized YouTubeVideoProcessor with output directory: '' @ root) w1))"

text \<open>
  \<open>download_video\<close>. The handler \<open>except Exception\<close> turns every exception of the
  body into \<open>CineNotesException("Failed to download video", sys)\<close>; the assignments
  made before the exception stay. A stream query that finds nothing returns \<open>None\<close>,
  and the call of \<open>download\<close> on it raises \<open>AttributeError\<close>.
\<close>

definition download_handler :: "pyexn \<Rightarrow> pyexn" where
  "download_handler e = CineNotesException (lit ''Failed to download video'')"

definition download_video :: "env \<Rightarrow> session \<Rightarrow> world \<Rightarrow> (pyexn + pystr) \<times> session \<times> world" where
  "download_video E s w =
     (let w0 = logging_info (lit ''Starting video download from: '' @ youtube_url s) w in
      case YouTube E w0 (youtube_url s) of
        Some e \<Rightarrow> (Inl (download_handler e), s, w0)
      | None \<Rightarrow>
      (case get_highest_resolution E w0 (youtube_url s) of
        Inl e \<Rightarrow> (Inl (download_handler e), s, w0)
      | Inr strm \<Rightarrow>
      (case yt_title E w0 (youtube_url s) of
        Inl e \<Rightarrow> (Inl (download_handler e), s, w0)
      | Inr title \<Rightarrow>
      (let video_title = sanitize_filename E title;
           vd = os_path_join E (output_base_dir s) video_title;
           s1 = s\<lparr>video_dir := Some vd\<rparr> in
       case os_makedirs E vd w0 of
         (Some e, w1) \<Rightarrow> (Inl (download_handler e), s1, w1)
       | (None, w1) \<Rightarrow>
       (case strm of
          None \<Rightarrow> (Inl (download_handler (AttributeError (lit ''download''))), s1, w1)
        | Some st \<Rightarrow>
        (let w2 = w1\<lparr>trace := trace w1 @ [Download st vd (lit ''video.mp4'')]\<rparr> in
         case stream_download E w1 st vd (lit ''video.mp4'') of
           Inl e \<Rightarrow> (Inl (download_handler e), s1, w2)
         | Inr path \<Rightarrow>
         (let s2 = s1\<lparr>video_filename := Some path\<rparr>;
              w3 = logging_info (lit ''Video downloaded successfully to: '' @ path) w2;
              ad = os_path_join E vd (lit ''audio'');
              fd = os_path_join E vd (lit ''frames'');
              s3 = s2\<lparr>audio_dir := Some ad, frames_dir := Some fd\<rparr> in
          case os_makedirs E ad w3 of
            (Some e, w4) \<Rightarrow> (Inl (download_handler e), s3, w4)
          | (None, w4) \<Rightarrow>
          (case os_makedirs E fd w4 of
             (Some e, w5) \<Rightarrow> (Inl (download_handler e), s3, w5)
           | (None, w5) \<Rightarrow> (Inr path, s3, w5)))))))))"

text \<open>
  The handlers of the two extractors: \<open>except ValueError as ve: raise ve\<close> comes
  first, so a \<open>ValueError\<close> leaves unchanged; \<open>except Exception\<close> turns everything
  else into a \<open>CineNotesException\<close> with the operation's message.
\<close>

definition extract_handler :: "pystr \<Rightarrow> pyexn \<Rightarrow> pyexn" where
  "extract_handler msg e = (case e of ValueError m \<Rightarrow> ValueError m | _ \<Rightarrow> CineNotesException msg)"

definition no_video :: pyexn where
  "no_video = ValueError (lit ''No video has been downloaded. Call download_video() first.'')"

text \<open>\<open>not self.video_filename\<close> holds for \<open>None\<close> and for the empty string.\<close>

definition extract_audio :: "env \<Rightarrow> pystr \<Rightarrow> session \<Rightarrow> world \<Rightarrow> (pyexn + pystr) \<times> session \<times> world" where
  "extract_audio E audio_filename s w =
     (let h = extract_handler (lit ''Failed to extract audio'') in
      case video_filename s of
        None \<Rightarrow> (Inl (h no_video), s, w)
      | Some v \<Rightarrow>
      if v = [] then (Inl (h no_video), s, w)
      else
      (case audio_dir s of
         None \<Rightarrow> (Inl (h (TypeError (lit ''join''))), s, w)
       | Some ad \<Rightarrow>
       (let audio_path = os_path_join E ad audio_filename;
            w1 = logging_info (lit ''Extracting audio to: '' @ audio_path) w;
            cmd = [lit ''ffmpeg'', lit ''-i'', v, lit ''-vn'', lit ''-acodec'', lit ''pcm_s16le'',
                   lit ''-ar'', lit ''44100'', lit ''-ac'', lit ''2'', audio_path, lit ''-y''] in
        case subprocess_run E cmd w1 of
          (Some e, w2) \<Rightarrow> (Inl (h e), s, w2)
        | (None, w2) \<Rightarrow>
            (Inr audio_path, s, logging_info (lit ''Audio extraction completed successfully'') w2))))"

definition extract_frames :: "env \<Rightarrow> pystr \<Rightarrow> pystr \<Rightarrow> session \<Rightarrow> world \<Rightarrow> (pyexn + pystr) \<times> session \<times> world" where
  "extract_frames E image_prefix image_format s w =
     (let h = extract_handler (lit ''Failed to extract frames'') in
      case video_filename s of
        None \<Rightarrow> (Inl (h no_video), s, w)
      | Some v \<Rightarrow>
      if v = [] then (Inl (h no_video), s, w)
      else
      (let w1 = logging_info (lit ''Extracting frames to: '' @ fmt (frames_dir s)) w in
       case frames_dir s of
         None \<Rightarrow> (Inl (h (TypeError (lit ''join''))), s, w1)
       | Some fd \<Rightarrow>
       (let frame_pattern = os_path_join E fd (image_prefix @ lit ''%05d.'' @ image_format);
            cmd = [lit ''ffmpeg'', lit ''-i'', v, frame_pattern, lit ''-y''] in
        case subprocess_run E cmd w1 of
          (Some e, w2) \<Rightarrow> (Inl (h e), s, w2)
        | (None, w2) \<Rightarrow>
            (Inr fd, s, logging_info (lit ''Frame extraction completed successfully'') w2))))"

section \<open>A concrete environment\<close>

text \<open>
  For running the operations on examples: the tables of \<open>str.isalnum\<close> and of the
  white space of \<open>str.strip\<close> on the ASCII range, POSIX path joining, the working
  directory \<open>/home\<close> (an absolute path is the join with it; no \<open>.\<close> or \<open>..\<close> occurs
  in the examples), a directory creation that always works, a video titled
  \<open>My Clip: Test!\<close> whose stream 22 is stored where pytube is told to, and a decoder
  that returns 0.
\<close>

definition ascii_isalnum :: "nat \<Rightarrow> bool" where
  "ascii_isalnum c \<longleftrightarrow> 48 \<le> c \<and> c \<le> 57 \<or> 65 \<le> c \<and> c \<le> 90 \<or> 97 \<le> c \<and> c \<le> 122"

definition ascii_isspace :: "nat \<Rightarrow> bool" where
  "ascii_isspace c \<longleftrightarrow> c = 32 \<or> 9 \<le> c \<and> c \<le> 13 \<or> 28 \<le> c \<and> c \<le> 31"

definition posix_join :: "pystr \<Rightarrow> pystr \<Rightarrow> pystr" where
  "posix_join a b =
     (if take 1 b = lit ''/'' then b
      else if a = [] \<or> last a = 47 then a @ b
      else a @ lit ''/'' @ b)"

definition demo_env :: env where
  "demo_env =
     \<lparr>str_isalnum = ascii_isalnum, str_isspace = ascii_isspace,
      os_path_abspath = posix_join (lit ''/home''), os_path_join = posix_join,
      mkdir_outcome = (\<lambda>w p. (None, {})),
      YouTube = (\<lambda>w u. None),
      get_highest_resolution = (\<lambda>w u. Inr (Some 22)),
      yt_title = (\<lambda>w u. Inr (lit ''My Clip: Test!'')),
      stream_download = (\<lambda>w st d f. Inr (posix_join d f)),
      popen = (\<lambda>w cmd. Inr (0, []))\<rparr>"

definition empty_world :: world where
  "empty_world = \<lparr>dirs = {}, trace = []\<rparr>"

text \<open>
  Variants in which one call fails: the stream query is refused, as in the run
  recorded in the notebook; the download breaks off; the \<open>audio\<close> directory cannot be
  created; the decoder is not installed; the decoder stops with return code 1; the
  launch refuses an argument that holds the code point 0 with
  \<open>ValueError("embedded null byte")\<close>, as \<open>subprocess\<close> does, before any process
  is started.
\<close>

definition forbidden_env :: env where
  "forbidden_env =
     demo_env\<lparr>get_highest_resolution :=
       (\<lambda>w u. Inl (LibraryError (lit ''HTTP Error 403: Forbidden'')))\<rparr>"

definition download_fails_env :: env where
  "download_fails_env =
     demo_env\<lparr>stream_download :=
       (\<lambda>w st d f. Inl (LibraryError (lit ''IncompleteRead'')))\<rparr>"

definition audio_mkdir_fails_env :: env where
  "audio_mkdir_fails_env =
     demo_env\<lparr>mkdir_outcome :=
       (\<lambda>w p. if p = lit ''/home/out/My Clip Test/audio''
              then (Some (OSError (lit ''Permission denied'')), {}) else (None, {}))\<rparr>"

definition no_ffmpeg_env :: env where
  "no_ffmpeg_env = demo_env\<lparr>popen := (\<lambda>w cmd. Inl (FileNotFoundError (lit ''ffmpeg'')))\<rparr>"

definition ffmpeg_error_env :: env where
  "ffmpeg_error_env =
     demo_env\<lparr>popen := (\<lambda>w cmd. Inr (1, lit ''Invalid data found when processing input''))\<rparr>"

definition nul_byte_env :: env where
  "nul_byte_env =
     demo_env\<lparr>popen :=
       (\<lambda>w cmd. if list_ex (\<lambda>a. 0 \<in> set a) cmd
                then Inl (ValueError (lit ''embedded null byte'')) else Inr (0, []))\<rparr>"

text \<open>
  The session that the constructor builds for the URL \<open>https://youtu.be/x\<close> and the
  base directory \<open>out\<close>, the world it leaves, and the session and the world after a
  download that worked.
\<close>

definition fresh_session :: session where
  "fresh_session =
     \<lparr>youtube_url = lit ''https://youtu.be/x'', output_base_dir = lit ''/home/out'',
      video_filename = None, video_dir = None, audio_dir = None, frames_dir = None\<rparr>"

definition fresh_world :: world where
  "fresh_world =
     \<lparr>dirs = {lit ''/home/out''},
      trace = [Makedirs (lit ''/home/out''),
               LogInfo (lit ''Initialized YouTubeVideoProcessor with output directory: /home/out'')]\<rparr>"

definition acquired_session :: session where
  "acquired_session =
     fresh_session
       \<lparr>video_filename := Some (lit ''/home/out/My Clip Test/video.mp4''),
        video_dir := Some (lit ''/home/out/My Clip Test''),
        audio_dir := Some (lit ''/home/out/My Clip Test/audio''),
        frames_dir := Some (lit ''/home/out/My Clip Test/frames'')\<rparr>"

definition acquired_world :: world where
  "acquired_world =
     \<lparr>dirs = {lit ''/home/out/My Clip Test/frames'', lit ''/home/out/My Clip Test/audio'',
              lit ''/home/out/My Clip Test'', lit ''/home/out''},
      trace = trace fresh_world @
        [LogInfo (lit ''Starting video download from: https://youtu.be/x''),
         Makedirs (lit ''/home/out/My Clip Test''),
         Download 22 (lit ''/home/out/My Clip Test'') (lit ''video.mp4''),
         LogInfo (lit ''Video downloaded successfully to: /home/out/My Clip Test/video.mp4''),
         Makedirs (lit ''/home/out/My Clip Test/audio''),
         Makedirs (lit ''/home/out/My Clip Test/frames'')]\<rparr>"

section \<open>Reading the trace\<close>

text \<open>The calls that an operation added to the trace, given the world before and after.\<close>

definition new_events :: "world \<Rightarrow> world \<Rightarrow> event list" where
  "new_events w w' = drop (length (trace w)) (trace w')"

section \<open>Properties of the sanitizer\<close>

lemma str_strip_subset: "set (str_strip E s) \<subseteq> set s"
proof -
  have "set (dropWhile (str_isspace E) (rev (dropWhile (str_isspace E) s)))
          \<subseteq> set (rev (dropWhile (str_isspace E) s))"
    by (rule set_dropWhileD [THEN subsetI])
  also have "\<dots> \<subseteq> set s"
    using set_dropWhileD [of _ "str_isspace E" s] by auto
  finally show ?thesis by (simp add: str_strip_def)
qed

lemma dropWhile_fixed: "xs = [] \<or> \<not> P (hd xs) \<Longrightarrow> dropWhile P xs = xs"
  by (cases xs) auto

lemma hd_dropWhile_rev_keep:
  assumes "xs \<noteq> []" "\<not> P (hd xs)"
  shows "rev (dropWhile P (rev xs)) \<noteq> [] \<and> hd (rev (dropWhile P (rev xs))) = hd xs"
proof -
  from assms obtain a ys where xs: "xs = a # ys" and a: "\<not> P a"
    by (cases xs) auto
  have "rev (dropWhile P (rev xs)) = a # rev (dropWhile P (rev ys))"
    using a by (simp add: xs dropWhile_append)
  then show ?thesis by (simp add: xs)
qed

lemma str_strip_no_lead:
  "str_strip E s \<noteq> [] \<Longrightarrow> \<not> str_isspace E (hd (str_strip E s))"
proof -
  assume ne: "str_strip E s \<noteq> []"
  let ?P = "str_isspace E"
  let ?u = "dropWhile ?P s"
  have u: "?u \<noteq> []"
  proof
    assume e: "?u = []"
    have "str_strip E s = []" unfolding str_strip_def e by simp
    with ne show False by simp
  qed
  then have "\<not> ?P (hd ?u)" by (rule hd_dropWhile)
  with u show ?thesis
    using hd_dropWhile_rev_keep [of ?u ?P] by (simp add: str_strip_def)
qed

lemma str_strip_no_trail:
  "str_strip E s \<noteq> [] \<Longrightarrow> \<not> str_isspace E (last (str_strip E s))"
proof -
  assume ne: "str_strip E s \<noteq> []"
  let ?P = "str_isspace E"
  let ?r = "dropWhile ?P (rev (dropWhile ?P s))"
  have r: "?r \<noteq> []" using ne by (simp add: str_strip_def)
  then have "\<not> ?P (hd ?r)" by (rule hd_dropWhile)
  with r show ?thesis by (simp add: str_strip_def last_rev)
qed

lemma str_strip_fixed:
  assumes "s = [] \<or> (\<not> str_isspace E (hd s) \<and> \<not> str_isspace E (last s))"
  shows "str_strip E s = s"
proof (cases "s = []")
  case True
  then show ?thesis by (simp add: str_strip_def)
next
  case False
  with assms have h: "\<not> str_isspace E (hd s)" and l: "\<not> str_isspace E (last s)" by auto
  have 1: "dropWhile (str_isspace E) s = s"
    using h by (intro dropWhile_fixed) simp
  have 2: "dropWhile (str_isspace E) (rev s) = rev s"
    using l False by (intro dropWhile_fixed) (simp add: hd_rev)
  show ?thesis by (simp add: str_strip_def 1 2)
qed

lemma str_strip_idem: "str_strip E (str_strip E s) = str_strip E s"
  using str_strip_no_lead [of E s] str_strip_no_trail [of E s]
  by (intro str_strip_fixed) blast

lemma sanitize_keeps: "c \<in> set (sanitize_filename E x) \<Longrightarrow> keep_char E c"
  using str_strip_subset [of E "filter (keep_char E) x"]
  by (auto simp: sanitize_filename_def)

text \<open>
  Claim C7. The sanitizer is idempotent: sanitizing a sanitized name changes nothing,
  whatever the tables of alphanumeric and white-space characters are.
\<close>

theorem sanitize_idempotent:
  "sanitize_filename E (sanitize_filename E x) = sanitize_filename E x"
proof -
  have "filter (keep_char E) (sanitize_filename E x) = sanitize_filename E x"
    by (rule filter_True) (simp add: sanitize_keeps)
  then have "sanitize_filename E (sanitize_filename E x) = str_strip E (sanitize_filename E x)"
    by (simp add: sanitize_filename_def [of E "sanitize_filename E x"])
  also have "\<dots> = sanitize_filename E x"
    by (simp add: sanitize_filename_def [of E x] str_strip_idem)
  finally show ?thesis .
qed

text \<open>
  Claim C8. Every character of a sanitized name is alphanumeric or one of space, dot,
  underscore and hyphen; a sanitized name neither begins nor ends with white space;
  the empty name is sanitized to the empty name. The sanitizer is a function of its
  argument and the character tables alone, defined on every string.
\<close>

theorem sanitize_charset:
  "(\<forall>c \<in> set (sanitize_filename E x). str_isalnum E c \<or> c \<in> set (lit '' ._-'')) \<and>
   (sanitize_filename E x \<noteq> [] \<longrightarrow>
      \<not> str_isspace E (hd (sanitize_filename E x)) \<and>
      \<not> str_isspace E (last (sanitize_filename E x))) \<and>
   sanitize_filename E [] = []"
proof (intro conjI ballI impI)
  fix c assume "c \<in> set (sanitize_filename E x)"
  then have "keep_char E c" by (rule sanitize_keeps)
  then show "str_isalnum E c \<or> c \<in> set (lit '' ._-'')" by (simp add: keep_char_def)
next
  assume "sanitize_filename E x \<noteq> []"
  then show "\<not> str_isspace E (hd (sanitize_filename E x))"
    unfolding sanitize_filename_def by (rule str_strip_no_lead)
next
  assume "sanitize_filename E x \<noteq> []"
  then show "\<not> str_isspace E (last (sanitize_filename E x))"
    unfolding sanitize_filename_def by (rule str_strip_no_trail)
next
  show "sanitize_filename E [] = []" by (simp add: sanitize_filename_def str_strip_def)
qed

text \<open>The definitions to unfold when an example is computed.\<close>

lemmas demo_simps = sanitize_filename_def str_strip_def keep_char_def demo_env_def lit_def ascii_isalnum_def ascii_isspace_def

theorem sanitize_charset_witness:
  "sanitize_filename demo_env (lit ''  My Clip: Test! '') = lit ''My Clip Test'' \<and>
   list_all (\<lambda>c. ascii_isalnum c \<or> c \<in> set (lit '' ._-''))
     (sanitize_filename demo_env (lit ''  My Clip: Test! '')) \<and>
   \<not> ascii_isspace (hd (sanitize_filename demo_env (lit ''  My Clip: Test! ''))) \<and>
   \<not> ascii_isspace (last (sanitize_filename demo_env (lit ''  My Clip: Test! '')))"
  using sanitize_charset [of demo_env "lit ''  My Clip: Test! ''"]
  by (simp add: demo_simps)

section \<open>Properties of the session operations\<close>

text \<open>Facts about \<open>os.makedirs\<close>, the constructor and the branches of \<open>download_video\<close>.\<close>

lemma os_makedirs_trace: "os_makedirs E p w = (r, w') \<Longrightarrow> trace w' = trace w @ [Makedirs p]"
  by (auto simp: os_makedirs_def Let_def split: if_splits prod.splits option.splits)


lemmas env_defs = forbidden_env_def download_fails_env_def audio_mkdir_fails_env_def no_ffmpeg_env_def ffmpeg_error_env_def nul_byte_env_def posix_join_def
lemmas op_defs = init_def download_video_def extract_audio_def extract_frames_def os_makedirs_def subprocess_run_def
  logging_info_def init_handler_def download_handler_def extract_handler_def no_video_def fmt_def new_events_def Let_def
lemmas state_defs = fresh_session_def fresh_world_def acquired_session_def acquired_world_def empty_world_def

lemma os_makedirs_dirs: "os_makedirs E p w = (r, w') \<Longrightarrow> dirs w \<subseteq> dirs w'"
  by (auto simp: os_makedirs_def Let_def split: if_splits prod.splits option.splits)

lemma os_makedirs_created: "os_makedirs E p w = (None, w') \<Longrightarrow> p \<in> dirs w'"
  by (auto simp: os_makedirs_def Let_def split: if_splits prod.splits option.splits)

lemma os_makedirs_existing:
  "p \<in> dirs w \<Longrightarrow> os_makedirs E p w = (None, w\<lparr>trace := trace w @ [Makedirs p]\<rparr>)"
  by (simp add: os_makedirs_def)

lemma init_fresh:
  "init E url base w = (Inr s, w') \<Longrightarrow>
     s = \<lparr>youtube_url = url, output_base_dir = os_path_abspath E base, video_filename = None,
          video_dir = None, audio_dir = None, frames_dir = None\<rparr>"
  by (auto simp: init_def Let_def split: prod.splits option.splits)

lemma download_video_cases [consumes 1, case_names resolve_fails mkdir_video_fails no_stream download_fails mkdir_audio_fails mkdir_frames_fails returns]:
  assumes run: "download_video E s w = (r, s', w')"
  obtains
    "r = Inl (CineNotesException (lit ''Failed to download video''))" "s' = s"
    "w' = logging_info (lit ''Starting video download from: '' @ youtube_url s) w"
  | vd e where
    "r = Inl (CineNotesException (lit ''Failed to download video''))" "s' = s\<lparr>video_dir := Some vd\<rparr>"
    "os_makedirs E vd (logging_info (lit ''Starting video download from: '' @ youtube_url s) w) = (Some e, w')"
  | vd where
    "r = Inl (CineNotesException (lit ''Failed to download video''))" "s' = s\<lparr>video_dir := Some vd\<rparr>"
    "os_makedirs E vd (logging_info (lit ''Starting video download from: '' @ youtube_url s) w) = (None, w')"
  | vd st w1 where
    "r = Inl (CineNotesException (lit ''Failed to download video''))" "s' = s\<lparr>video_dir := Some vd\<rparr>"
    "os_makedirs E vd (logging_info (lit ''Starting video download from: '' @ youtube_url s) w) = (None, w1)"
    "w' = w1\<lparr>trace := trace w1 @ [Download st vd (lit ''video.mp4'')]\<rparr>"
  | vd st w1 path e where
    "r = Inl (CineNotesException (lit ''Failed to download video''))"
    "s' = s\<lparr>video_dir := Some vd, video_filename := Some path,
             audio_dir := Some (os_path_join E vd (lit ''audio'')),
             frames_dir := Some (os_path_join E vd (lit ''frames''))\<rparr>"
    "os_makedirs E vd (logging_info (lit ''Starting video download from: '' @ youtube_url s) w) = (None, w1)"
    "os_makedirs E (os_path_join E vd (lit ''audio''))
       (logging_info (lit ''Video downloaded successfully to: '' @ path)
          (w1\<lparr>trace := trace w1 @ [Download st vd (lit ''video.mp4'')]\<rparr>)) = (Some e, w')"
  | vd st w1 path w4 e where
    "r = Inl (CineNotesException (lit ''Failed to download video''))"
    "s' = s\<lparr>video_dir := Some vd, video_filename := Some path,
             audio_dir := Some (os_path_join E vd (lit ''audio'')),
             frames_dir := Some (os_path_join E vd (lit ''frames''))\<rparr>"
    "os_makedirs E vd (logging_info (lit ''Starting video download from: '' @ youtube_url s) w) = (None, w1)"
    "os_makedirs E (os_path_join E vd (lit ''audio''))
       (logging_info (lit ''Video downloaded successfully to: '' @ path)
          (w1\<lparr>trace := trace w1 @ [Download st vd (lit ''video.mp4'')]\<rparr>)) = (None, w4)"
    "os_makedirs E (os_path_join E vd (lit ''frames'')) w4 = (Some e, w')"
  | vd st w1 path w4 where
    "r = Inr path"
    "s' = s\<lparr>video_dir := Some vd, video_filename := Some path,
             audio_dir := Some (os_path_join E vd (lit ''audio'')),
             frames_dir := Some (os_path_join E vd (lit ''frames''))\<rparr>"
    "os_makedirs E vd (logging_info (lit ''Starting video download from: '' @ youtube_url s) w) = (None, w1)"
    "os_makedirs E (os_path_join E vd (lit ''audio''))
       (logging_info (lit ''Video downloaded successfully to: '' @ path)
          (w1\<lparr>trace := trace w1 @ [Download st vd (lit ''video.mp4'')]\<rparr>)) = (None, w4)"
    "os_makedirs E (os_path_join E vd (lit ''frames'')) w4 = (None, w')"
proof -
  let ?w0 = "logging_info (lit ''Starting video download from: '' @ youtube_url s) w"
  let ?u = "youtube_url s"
  note d = download_video_def Let_def download_handler_def
  show thesis
  proof (cases "YouTube E ?w0 ?u")
    case (Some e)
    with run show thesis by (intro that(1)) (auto simp: d)
  next
    case yt: None
    show thesis
    proof (cases "get_highest_resolution E ?w0 ?u")
      case (Inl e)
      with run yt show thesis by (intro that(1)) (auto simp: d)
    next
      case strm: (Inr strm)
      show thesis
      proof (cases "yt_title E ?w0 ?u")
        case (Inl e)
        with run yt strm show thesis by (intro that(1)) (auto simp: d)
      next
        case title: (Inr title)
        let ?vd = "os_path_join E (output_base_dir s) (sanitize_filename E title)"
        obtain r1 w1 where m1: "os_makedirs E ?vd ?w0 = (r1, w1)" by (cases "os_makedirs E ?vd ?w0")
        show thesis
        proof (cases r1)
          case (Some e)
          with run yt strm title m1 show thesis by (intro that(2) [of ?vd e]) (auto simp: d)
        next
          case r1: None
          show thesis
          proof (cases strm)
            case None
            with run yt strm title m1 r1 show thesis by (intro that(3) [of ?vd]) (auto simp: d)
          next
            case st: (Some st)
            let ?w2 = "w1\<lparr>trace := trace w1 @ [Download st ?vd (lit ''video.mp4'')]\<rparr>"
            show thesis
            proof (cases "stream_download E w1 st ?vd (lit ''video.mp4'')")
              case (Inl e)
              with run yt strm title m1 r1 st show thesis
                by (intro that(4) [of ?vd w1 st]) (auto simp: d)
            next
              case path: (Inr path)
              let ?ad = "os_path_join E ?vd (lit ''audio'')"
              let ?fd = "os_path_join E ?vd (lit ''frames'')"
              let ?w3 = "logging_info (lit ''Video downloaded successfully to: '' @ path) ?w2"
              obtain r4 w4 where m4: "os_makedirs E ?ad ?w3 = (r4, w4)" by (cases "os_makedirs E ?ad ?w3")
              show thesis
              proof (cases r4)
                case (Some e)
                with run yt strm title m1 r1 st path m4 show thesis
                  by (intro that(5) [of ?vd path w1 st e]) (auto simp: d)
              next
                case r4: None
                obtain r5 w5 where m5: "os_makedirs E ?fd w4 = (r5, w5)" by (cases "os_makedirs E ?fd w4")
                show thesis
                proof (cases r5)
                  case (Some e)
                  with run yt strm title m1 r1 st path m4 r4 m5 show thesis
                    by (intro that(6) [of ?vd path w1 st w4 e]) (auto simp: d)
                next
                  case None
                  with run yt strm title m1 r1 st path m4 r4 m5 show thesis
                    by (intro that(7) [of path ?vd w1 st w4]) (auto simp: d)
                qed
              qed
            qed
          qed
        qed
      qed
    qed
  qed
qed



lemma download_video_new_events:
  assumes "download_video E s w = (Inr p, s', w')"
  shows "\<exists>st vd. s' = s\<lparr>video_dir := Some vd, video_filename := Some p,
             audio_dir := Some (os_path_join E vd (lit ''audio'')),
             frames_dir := Some (os_path_join E vd (lit ''frames''))\<rparr> \<and>
          new_events w w' =
            [LogInfo (lit ''Starting video download from: '' @ youtube_url s),
             Makedirs vd, Download st vd (lit ''video.mp4''),
             LogInfo (lit ''Video downloaded successfully to: '' @ p),
             Makedirs (os_path_join E vd (lit ''audio'')),
             Makedirs (os_path_join E vd (lit ''frames''))] \<and>
          {vd, os_path_join E vd (lit ''audio''), os_path_join E vd (lit ''frames'')} \<subseteq> dirs w'"
  using assms
proof (cases rule: download_video_cases)
  case (returns vd st w1 path w4)
  note t1 = os_makedirs_trace [OF returns(3)]
  note t4 = os_makedirs_trace [OF returns(4)]
  note t5 = os_makedirs_trace [OF returns(5)]
  have ev: "new_events w w' =
            [LogInfo (lit ''Starting video download from: '' @ youtube_url s),
             Makedirs vd, Download st vd (lit ''video.mp4''),
             LogInfo (lit ''Video downloaded successfully to: '' @ path),
             Makedirs (os_path_join E vd (lit ''audio'')),
             Makedirs (os_path_join E vd (lit ''frames''))]"
    by (simp add: new_events_def t5 t4 t1 logging_info_def)
  have "vd \<in> dirs w1" using returns(3) by (rule os_makedirs_created)
  then have "vd \<in> dirs w4"
    using os_makedirs_dirs [OF returns(4)] by (auto simp: logging_info_def)
  then have d1: "vd \<in> dirs w'" using os_makedirs_dirs [OF returns(5)] by auto
  have "os_path_join E vd (lit ''audio'') \<in> dirs w4" using returns(4) by (rule os_makedirs_created)
  then have d2: "os_path_join E vd (lit ''audio'') \<in> dirs w'"
    using os_makedirs_dirs [OF returns(5)] by auto
  have d3: "os_path_join E vd (lit ''frames'') \<in> dirs w'" using returns(5) by (rule os_makedirs_created)
  from returns(1,2) ev d1 d2 d3 show ?thesis by auto
qed simp_all

lemma download_video_events_prefix:
  "\<exists>st vd p n. new_events w (snd (snd (download_video E s w))) =
     take n [LogInfo (lit ''Starting video download from: '' @ youtube_url s),
             Makedirs vd, Download st vd (lit ''video.mp4''),
             LogInfo (lit ''Video downloaded successfully to: '' @ p),
             Makedirs (os_path_join E vd (lit ''audio'')),
             Makedirs (os_path_join E vd (lit ''frames''))]"
  (is "\<exists>st vd p n. _ = take n (?full st vd p)")
proof -
  obtain r s' w' where run: "download_video E s w = (r, s', w')"
    by (cases "download_video E s w") auto
  have "\<exists>st vd p n. new_events w w' = take n (?full st vd p)"
    using run
  proof (cases rule: download_video_cases)
    case resolve_fails
    then have "new_events w w' = take 1 (?full undefined undefined undefined)"
      by (simp add: new_events_def logging_info_def)
    then show ?thesis by blast
  next
    case (mkdir_video_fails vd e)
    note t1 = os_makedirs_trace [OF mkdir_video_fails(3)]
    have "new_events w w' = take 2 (?full undefined vd undefined)"
      by (simp add: new_events_def t1 logging_info_def)
    then show ?thesis by blast
  next
    case (no_stream vd)
    note t1 = os_makedirs_trace [OF no_stream(3)]
    have "new_events w w' = take 2 (?full undefined vd undefined)"
      by (simp add: new_events_def t1 logging_info_def)
    then show ?thesis by blast
  next
    case (download_fails vd st w1)
    note t1 = os_makedirs_trace [OF download_fails(3)]
    have "new_events w w' = take 3 (?full st vd undefined)"
      by (simp add: new_events_def download_fails(4) t1 logging_info_def)
    then show ?thesis by blast
  next
    case (mkdir_audio_fails vd st w1 path e)
    note t1 = os_makedirs_trace [OF mkdir_audio_fails(3)]
    note t4 = os_makedirs_trace [OF mkdir_audio_fails(4)]
    have "new_events w w' = take 5 (?full st vd path)"
      by (simp add: new_events_def t4 t1 logging_info_def)
    then show ?thesis by blast
  next
    case (mkdir_frames_fails vd st w1 path w4 e)
    note t1 = os_makedirs_trace [OF mkdir_frames_fails(3)]
    note t4 = os_makedirs_trace [OF mkdir_frames_fails(4)]
    note t5 = os_makedirs_trace [OF mkdir_frames_fails(5)]
    have "new_events w w' = take 6 (?full st vd path)"
      by (simp add: new_events_def t5 t4 t1 logging_info_def)
    then show ?thesis by blast
  next
    case (returns vd st w1 path w4)
    note t1 = os_makedirs_trace [OF returns(3)]
    note t4 = os_makedirs_trace [OF returns(4)]
    note t5 = os_makedirs_trace [OF returns(5)]
    have "new_events w w' = take 6 (?full st vd path)"
      by (simp add: new_events_def t5 t4 t1 logging_info_def)
    then show ?thesis by blast
  qed
  with run show ?thesis by simp
qed

lemma download_video_raises:
  assumes "download_video E s w = (Inl e, s', w')"
  shows "e = CineNotesException (lit ''Failed to download video'')"
  using assms by (cases rule: download_video_cases) simp_all

lemma download_video_resolve_fails:
  assumes "YouTube E (logging_info (lit ''Starting video download from: '' @ youtube_url s) w) (youtube_url s) \<noteq> None \<or>
           isl (get_highest_resolution E (logging_info (lit ''Starting video download from: '' @ youtube_url s) w) (youtube_url s)) \<or>
           isl (yt_title E (logging_info (lit ''Starting video download from: '' @ youtube_url s) w) (youtube_url s))"
  shows "download_video E s w =
           (Inl (CineNotesException (lit ''Failed to download video'')), s,
            logging_info (lit ''Starting video download from: '' @ youtube_url s) w)"
proof -
  let ?w0 = "logging_info (lit ''Starting video download from: '' @ youtube_url s) w"
  let ?u = "youtube_url s"
  note d = download_video_def Let_def download_handler_def
  show ?thesis
  proof (cases "YouTube E ?w0 ?u")
    case (Some e)
    then show ?thesis by (simp add: d)
  next
    case yt: None
    show ?thesis
    proof (cases "get_highest_resolution E ?w0 ?u")
      case (Inl e)
      with yt show ?thesis by (simp add: d)
    next
      case strm: (Inr strm)
      with yt assms obtain e where "yt_title E ?w0 ?u = Inl e"
        by (cases "yt_title E ?w0 ?u") auto
      with yt strm show ?thesis by (simp add: d)
    qed
  qed
qed

lemma download_video_store_fails:
  assumes "YouTube E (logging_info (lit ''Starting video download from: '' @ youtube_url s) w) (youtube_url s) = None"
    and "yt_title E (logging_info (lit ''Starting video download from: '' @ youtube_url s) w) (youtube_url s) = Inr t"
    and "os_makedirs E (os_path_join E (output_base_dir s) (sanitize_filename E t))
           (logging_info (lit ''Starting video download from: '' @ youtube_url s) w) = (None, w1)"
    and "get_highest_resolution E (logging_info (lit ''Starting video download from: '' @ youtube_url s) w) (youtube_url s) = Inr None \<or>
         (\<exists>st x. get_highest_resolution E (logging_info (lit ''Starting video download from: '' @ youtube_url s) w) (youtube_url s) = Inr (Some st) \<and>
            stream_download E w1 st (os_path_join E (output_base_dir s) (sanitize_filename E t)) (lit ''video.mp4'') = Inl x)"
  shows "fst (download_video E s w) = Inl (CineNotesException (lit ''Failed to download video'')) \<and>
         fst (snd (download_video E s w)) = s\<lparr>video_dir := Some (os_path_join E (output_base_dir s) (sanitize_filename E t))\<rparr> \<and>
         os_path_join E (output_base_dir s) (sanitize_filename E t) \<in> dirs (snd (snd (download_video E s w)))"
proof -
  have "os_path_join E (output_base_dir s) (sanitize_filename E t) \<in> dirs w1"
    using assms(3) by (rule os_makedirs_created)
  with assms show ?thesis
    by (auto simp: download_video_def Let_def download_handler_def)
qed

lemma start_not_success:
  "lit ''Video downloaded successfully to: '' @ p \<noteq> lit ''Starting video download from: '' @ u"
  by (simp add: lit_def)

lemma download_video_logged:
  assumes run: "download_video E s w = (r, s', w')"
  shows "(\<forall>p. LogInfo (lit ''Video downloaded successfully to: '' @ p) \<in> set (new_events w w')
             \<longrightarrow> video_filename s' = Some p) \<and>
         ((\<forall>p. LogInfo (lit ''Video downloaded successfully to: '' @ p) \<notin> set (new_events w w'))
             \<longrightarrow> video_filename s' = video_filename s)"
  using run
proof (cases rule: download_video_cases)
  case resolve_fails
  then have "new_events w w' = [LogInfo (lit ''Starting video download from: '' @ youtube_url s)]"
    by (simp add: new_events_def logging_info_def)
  with resolve_fails show ?thesis by (simp add: start_not_success)
next
  case (mkdir_video_fails vd e)
  note t1 = os_makedirs_trace [OF mkdir_video_fails(3)]
  have "new_events w w' = [LogInfo (lit ''Starting video download from: '' @ youtube_url s), Makedirs vd]"
    by (simp add: new_events_def t1 logging_info_def)
  with mkdir_video_fails show ?thesis by (simp add: start_not_success)
next
  case (no_stream vd)
  note t1 = os_makedirs_trace [OF no_stream(3)]
  have "new_events w w' = [LogInfo (lit ''Starting video download from: '' @ youtube_url s), Makedirs vd]"
    by (simp add: new_events_def t1 logging_info_def)
  with no_stream show ?thesis by (simp add: start_not_success)
next
  case (download_fails vd st w1)
  note t1 = os_makedirs_trace [OF download_fails(3)]
  have "new_events w w' = [LogInfo (lit ''Starting video download from: '' @ youtube_url s),
      Makedirs vd, Download st vd (lit ''video.mp4'')]"
    by (simp add: new_events_def download_fails(4) t1 logging_info_def)
  with download_fails show ?thesis by (simp add: start_not_success)
next
  case (mkdir_audio_fails vd st w1 path e)
  note t1 = os_makedirs_trace [OF mkdir_audio_fails(3)]
  note t4 = os_makedirs_trace [OF mkdir_audio_fails(4)]
  have "new_events w w' = [LogInfo (lit ''Starting video download from: '' @ youtube_url s),
      Makedirs vd, Download st vd (lit ''video.mp4''),
      LogInfo (lit ''Video downloaded successfully to: '' @ path),
      Makedirs (os_path_join E vd (lit ''audio''))]"
    by (simp add: new_events_def t4 t1 logging_info_def)
  with mkdir_audio_fails(2) show ?thesis by (auto simp: start_not_success)
next
  case (mkdir_frames_fails vd st w1 path w4 e)
  note t1 = os_makedirs_trace [OF mkdir_frames_fails(3)]
  note t4 = os_makedirs_trace [OF mkdir_frames_fails(4)]
  note t5 = os_makedirs_trace [OF mkdir_frames_fails(5)]
  have "new_events w w' = [LogInfo (lit ''Starting video download from: '' @ youtube_url s),
      Makedirs vd, Download st vd (lit ''video.mp4''),
      LogInfo (lit ''Video downloaded successfully to: '' @ path),
      Makedirs (os_path_join E vd (lit ''audio'')), Makedirs (os_path_join E vd (lit ''frames''))]"
    by (simp add: new_events_def t5 t4 t1 logging_info_def)
  with mkdir_frames_fails(2) show ?thesis by (auto simp: start_not_success)
next
  case (returns vd st w1 path w4)
  note t1 = os_makedirs_trace [OF returns(3)]
  note t4 = os_makedirs_trace [OF returns(4)]
  note t5 = os_makedirs_trace [OF returns(5)]
  have "new_events w w' = [LogInfo (lit ''Starting video download from: '' @ youtube_url s),
      Makedirs vd, Download st vd (lit ''video.mp4''),
      LogInfo (lit ''Video downloaded successfully to: '' @ path),
      Makedirs (os_path_join E vd (lit ''audio'')), Makedirs (os_path_join E vd (lit ''frames''))]"
    by (simp add: new_events_def t5 t4 t1 logging_info_def)
  with returns(2) show ?thesis by (auto simp: start_not_success)
qed

lemma download_video_subdir_fails:
  assumes "YouTube E (logging_info (lit ''Starting video download from: '' @ youtube_url s) w) (youtube_url s) = None"
    and "get_highest_resolution E (logging_info (lit ''Starting video download from: '' @ youtube_url s) w) (youtube_url s) = Inr (Some st)"
    and "yt_title E (logging_info (lit ''Starting video download from: '' @ youtube_url s) w) (youtube_url s) = Inr t"
    and "vd = os_path_join E (output_base_dir s) (sanitize_filename E t)"
    and "os_makedirs E vd (logging_info (lit ''Starting video download from: '' @ youtube_url s) w) = (None, w1)"
    and "stream_download E w1 st vd (lit ''video.mp4'') = Inr path"
    and "w3 = logging_info (lit ''Video downloaded successfully to: '' @ path)
                (w1\<lparr>trace := trace w1 @ [Download st vd (lit ''video.mp4'')]\<rparr>)"
    and "fst (os_makedirs E (os_path_join E vd (lit ''audio'')) w3) \<noteq> None \<or>
         fst (os_makedirs E (os_path_join E vd (lit ''frames''))
                (snd (os_makedirs E (os_path_join E vd (lit ''audio'')) w3))) \<noteq> None"
  shows "fst (download_video E s w) = Inl (CineNotesException (lit ''Failed to download video'')) \<and>
         video_filename (fst (snd (download_video E s w))) = Some path"
proof -
  obtain r4 w4 where m4: "os_makedirs E (os_path_join E vd (lit ''audio'')) w3 = (r4, w4)"
    by (cases "os_makedirs E (os_path_join E vd (lit ''audio'')) w3")
  obtain r5 w5 where m5: "os_makedirs E (os_path_join E vd (lit ''frames'')) w4 = (r5, w5)"
    by (cases "os_makedirs E (os_path_join E vd (lit ''frames'')) w4")
  note d = download_video_def Let_def download_handler_def
  show ?thesis
  proof (cases r4)
    case (Some e)
    with assms(1-7) m4 show ?thesis by (simp add: d)
  next
    case None
    with assms(8) m4 m5 obtain e where "r5 = Some e" by (cases r5) auto
    with None assms(1-7) m4 m5 show ?thesis by (simp add: d)
  qed
qed

lemma extract_audio_events:
  "\<forall>d. Makedirs d \<notin> set (new_events w (snd (snd (extract_audio E fn s w))))"
  by (simp add: extract_audio_def subprocess_run_def logging_info_def new_events_def Let_def
        split: option.splits sum.splits prod.splits)

lemma extract_frames_events:
  "\<forall>d. Makedirs d \<notin> set (new_events w (snd (snd (extract_frames E pre ext s w))))"
  by (simp add: extract_frames_def subprocess_run_def logging_info_def new_events_def Let_def
        split: option.splits sum.splits prod.splits)

lemma extract_audio_dirs: "dirs (snd (snd (extract_audio E fn s w))) = dirs w"
  by (simp add: extract_audio_def subprocess_run_def logging_info_def Let_def
        split: option.splits sum.splits prod.splits)

lemma extract_frames_dirs: "dirs (snd (snd (extract_frames E pre ext s w))) = dirs w"
  by (simp add: extract_frames_def subprocess_run_def logging_info_def Let_def
        split: option.splits sum.splits prod.splits)

lemma subprocess_run_ok:
  "popen E w cmd = Inr (0, out) \<Longrightarrow>
     subprocess_run E cmd w = (None, w\<lparr>trace := trace w @ [Run cmd]\<rparr>)"
  by (simp add: subprocess_run_def)

lemma subprocess_run_trace: "trace (snd (subprocess_run E cmd w)) = trace w @ [Run cmd]"
  by (simp add: subprocess_run_def Let_def split: sum.splits prod.splits)

lemma subprocess_run_fails:
  "(\<exists>e. popen E w cmd = Inl e \<and> (\<forall>m. e \<noteq> ValueError m)) \<or>
   (\<exists>rc out. popen E w cmd = Inr (rc, out) \<and> rc \<noteq> 0) \<Longrightarrow>
   \<exists>e. fst (subprocess_run E cmd w) = Some e \<and> (\<forall>m. e \<noteq> ValueError m)"
  by (auto simp: subprocess_run_def)

lemma extract_handler_other: "\<forall>m. e \<noteq> ValueError m \<Longrightarrow> extract_handler msg e = CineNotesException msg"
  by (cases e) (simp_all add: extract_handler_def)

lemma extract_audio_acquired:
  assumes "video_filename s = Some v" "v \<noteq> []" "audio_dir s = Some ad"
  shows "extract_audio E fn s w =
     (case subprocess_run E
             [lit ''ffmpeg'', lit ''-i'', v, lit ''-vn'', lit ''-acodec'', lit ''pcm_s16le'',
              lit ''-ar'', lit ''44100'', lit ''-ac'', lit ''2'', os_path_join E ad fn, lit ''-y'']
             (w\<lparr>trace := trace w @ [LogInfo (lit ''Extracting audio to: '' @ os_path_join E ad fn)]\<rparr>) of
        (Some e, w2) \<Rightarrow> (Inl (extract_handler (lit ''Failed to extract audio'') e), s, w2)
      | (None, w2) \<Rightarrow>
          (Inr (os_path_join E ad fn), s,
           logging_info (lit ''Audio extraction completed successfully'') w2))"
  using assms by (simp add: extract_audio_def Let_def logging_info_def)

lemma extract_frames_acquired:
  assumes "video_filename s = Some v" "v \<noteq> []" "frames_dir s = Some fd"
  shows "extract_frames E pre ext s w =
     (case subprocess_run E
             [lit ''ffmpeg'', lit ''-i'', v, os_path_join E fd (pre @ lit ''%05d.'' @ ext), lit ''-y'']
             (w\<lparr>trace := trace w @ [LogInfo (lit ''Extracting frames to: '' @ fd)]\<rparr>) of
        (Some e, w2) \<Rightarrow> (Inl (extract_handler (lit ''Failed to extract frames'') e), s, w2)
      | (None, w2) \<Rightarrow>
          (Inr fd, s, logging_info (lit ''Frame extraction completed successfully'') w2))"
  using assms by (simp add: extract_frames_def Let_def logging_info_def fmt_def)

lemma case_run_events:
  "take 2 (new_events w (snd (snd
      (case subprocess_run E cmd (w\<lparr>trace := trace w @ [l]\<rparr>) of
         (Some e, w2) \<Rightarrow> (Inl (h e), s, w2)
       | (None, w2) \<Rightarrow> (Inr r, s, logging_info m w2))))) = [l, Run cmd]"
proof -
  obtain x w2 where r: "subprocess_run E cmd (w\<lparr>trace := trace w @ [l]\<rparr>) = (x, w2)"
    by (cases "subprocess_run E cmd (w\<lparr>trace := trace w @ [l]\<rparr>)")
  have "trace w2 = trace w @ [l, Run cmd]"
    using subprocess_run_trace [of E cmd "w\<lparr>trace := trace w @ [l]\<rparr>"] r by simp
  with r show ?thesis by (cases x) (simp_all add: new_events_def logging_info_def)
qed

lemma case_run_ok:
  "popen E w1 cmd = Inr (0, out) \<Longrightarrow>
   fst (case subprocess_run E cmd w1 of
         (Some e, w2) \<Rightarrow> (Inl (h e), s, w2)
       | (None, w2) \<Rightarrow> (Inr r, s, logging_info m w2)) = Inr r"
  by (simp add: subprocess_run_ok)

lemma case_run_fails:
  assumes "(\<exists>e. popen E w1 cmd = Inl e \<and> (\<forall>m. e \<noteq> ValueError m)) \<or>
           (\<exists>rc out. popen E w1 cmd = Inr (rc, out) \<and> rc \<noteq> 0)"
  shows "fst (case subprocess_run E cmd w1 of
         (Some e, w2) \<Rightarrow> (Inl (extract_handler msg e), s, w2)
       | (None, w2) \<Rightarrow> (Inr r, s, logging_info m w2)) = Inl (CineNotesException msg)"
proof -
  from subprocess_run_fails [OF assms] obtain e where
    e: "fst (subprocess_run E cmd w1) = Some e" and nv: "\<forall>m. e \<noteq> ValueError m" by blast
  obtain x w2 where r: "subprocess_run E cmd w1 = (x, w2)" by (cases "subprocess_run E cmd w1")
  with e have "x = Some e" by simp
  with r nv show ?thesis by (simp add: extract_handler_other)
qed

lemma extract_value_error_passes:
  assumes "video_filename s = Some v" "v \<noteq> []" "audio_dir s = Some ad" "frames_dir s = Some fd"
  shows "popen E (w\<lparr>trace := trace w @ [LogInfo (lit ''Extracting audio to: '' @ os_path_join E ad fn)]\<rparr>)
           [lit ''ffmpeg'', lit ''-i'', v, lit ''-vn'', lit ''-acodec'', lit ''pcm_s16le'',
            lit ''-ar'', lit ''44100'', lit ''-ac'', lit ''2'', os_path_join E ad fn, lit ''-y'']
           = Inl (ValueError m) \<Longrightarrow>
         fst (extract_audio E fn s w) = Inl (ValueError m)"
    and "popen E (w\<lparr>trace := trace w @ [LogInfo (lit ''Extracting frames to: '' @ fd)]\<rparr>)
           [lit ''ffmpeg'', lit ''-i'', v, os_path_join E fd (pre @ lit ''%05d.'' @ ext), lit ''-y'']
           = Inl (ValueError m) \<Longrightarrow>
         fst (extract_frames E pre ext s w) = Inl (ValueError m)"
  by (simp_all add: extract_audio_acquired [OF assms(1,2,3)] extract_frames_acquired [OF assms(1,2,4)]
        subprocess_run_def Let_def extract_handler_def)

text \<open>
  The operations computed in the concrete environments: the constructor, a download
  that works, the three downloads that fail, and the extractors with a decoder that
  works, is missing or fails.
\<close>

lemmas run_simps = demo_simps env_defs op_defs state_defs

lemma demo_init:
  "init demo_env (lit ''https://youtu.be/x'') (lit ''out'') empty_world = (Inr fresh_session, fresh_world)"
  by (simp add: run_simps)

lemma demo_download:
  "download_video demo_env fresh_session fresh_world =
     (Inr (lit ''/home/out/My Clip Test/video.mp4''), acquired_session, acquired_world)"
  by (simp add: run_simps)

lemma demo_new_events:
  "new_events fresh_world acquired_world =
     [LogInfo (lit ''Starting video download from: https://youtu.be/x''),
      Makedirs (lit ''/home/out/My Clip Test''),
      Download 22 (lit ''/home/out/My Clip Test'') (lit ''video.mp4''),
      LogInfo (lit ''Video downloaded successfully to: /home/out/My Clip Test/video.mp4''),
      Makedirs (lit ''/home/out/My Clip Test/audio''),
      Makedirs (lit ''/home/out/My Clip Test/frames'')]"
  by (simp add: new_events_def state_defs)

lemma audio_mkdir_fails_download:
  "download_video audio_mkdir_fails_env fresh_session fresh_world =
     (Inl (CineNotesException (lit ''Failed to download video'')), acquired_session,
      \<lparr>dirs = {lit ''/home/out/My Clip Test'', lit ''/home/out''},
       trace = trace fresh_world @
        [LogInfo (lit ''Starting video download from: https://youtu.be/x''),
         Makedirs (lit ''/home/out/My Clip Test''),
         Download 22 (lit ''/home/out/My Clip Test'') (lit ''video.mp4''),
         LogInfo (lit ''Video downloaded successfully to: /home/out/My Clip Test/video.mp4''),
         Makedirs (lit ''/home/out/My Clip Test/audio'')]\<rparr>)"
  by (simp add: run_simps)

lemma download_fails_download:
  "download_video download_fails_env fresh_session fresh_world =
     (Inl (CineNotesException (lit ''Failed to download video'')),
      fresh_session\<lparr>video_dir := Some (lit ''/home/out/My Clip Test'')\<rparr>,
      \<lparr>dirs = {lit ''/home/out/My Clip Test'', lit ''/home/out''},
       trace = trace fresh_world @
        [LogInfo (lit ''Starting video download from: https://youtu.be/x''),
         Makedirs (lit ''/home/out/My Clip Test''),
         Download 22 (lit ''/home/out/My Clip Test'') (lit ''video.mp4'')]\<rparr>)"
  by (simp add: run_simps)

lemma forbidden_download:
  "download_video forbidden_env fresh_session fresh_world =
     (Inl (CineNotesException (lit ''Failed to download video'')), fresh_session,
      logging_info (lit ''Starting video download from: https://youtu.be/x'') fresh_world)"
  by (simp add: run_simps)

lemma demo_extract_audio:
  "extract_audio demo_env (lit ''audio.wav'') acquired_session acquired_world =
     (Inr (lit ''/home/out/My Clip Test/audio/audio.wav''), acquired_session,
      acquired_world\<lparr>trace := trace acquired_world @
        [LogInfo (lit ''Extracting audio to: /home/out/My Clip Test/audio/audio.wav''),
         Run [lit ''ffmpeg'', lit ''-i'', lit ''/home/out/My Clip Test/video.mp4'', lit ''-vn'',
              lit ''-acodec'', lit ''pcm_s16le'', lit ''-ar'', lit ''44100'', lit ''-ac'', lit ''2'',
              lit ''/home/out/My Clip Test/audio/audio.wav'', lit ''-y''],
         LogInfo (lit ''Audio extraction completed successfully'')]\<rparr>)"
  by (simp add: run_simps)

lemma demo_extract_frames:
  "extract_frames demo_env (lit ''frame_'') (lit ''jpg'') acquired_session acquired_world =
     (Inr (lit ''/home/out/My Clip Test/frames''), acquired_session,
      acquired_world\<lparr>trace := trace acquired_world @
        [LogInfo (lit ''Extracting frames to: /home/out/My Clip Test/frames''),
         Run [lit ''ffmpeg'', lit ''-i'', lit ''/home/out/My Clip Test/video.mp4'',
              lit ''/home/out/My Clip Test/frames/frame_%05d.jpg'', lit ''-y''],
         LogInfo (lit ''Frame extraction completed successfully'')]\<rparr>)"
  by (simp add: run_simps)

lemma no_ffmpeg_extract:
  "fst (extract_audio no_ffmpeg_env (lit ''audio.wav'') acquired_session acquired_world) =
     Inl (CineNotesException (lit ''Failed to extract audio''))"
  "fst (extract_frames no_ffmpeg_env (lit ''frame_'') (lit ''jpg'') acquired_session acquired_world) =
     Inl (CineNotesException (lit ''Failed to extract frames''))"
  by (simp_all add: run_simps)

lemma ffmpeg_error_extract:
  "fst (extract_audio ffmpeg_error_env (lit ''audio.wav'') acquired_session acquired_world) =
     Inl (CineNotesException (lit ''Failed to extract audio''))"
  "fst (extract_frames ffmpeg_error_env (lit ''frame_'') (lit ''jpg'') acquired_session acquired_world) =
     Inl (CineNotesException (lit ''Failed to extract frames''))"
  by (simp_all add: run_simps)

lemma video_filename_base:
  "(init E url base w0 = (Inr s0, w1) \<longrightarrow> video_filename s0 = None) \<and>
   (download_video E s w = (Inr p, s', w') \<longrightarrow> video_filename s' = Some p) \<and>
   (download_video E s w = (Inl e, s', w') \<and> video_filename s' \<noteq> video_filename s \<longrightarrow>
      (\<exists>st vd. Download st vd (lit ''video.mp4'') \<in> set (new_events w w')) \<and>
      (\<exists>p d. video_filename s' = Some p \<and> last (trace w') = Makedirs d \<and>
             (audio_dir s' = Some d \<or> frames_dir s' = Some d)))"
proof (intro conjI impI)
  assume "init E url base w0 = (Inr s0, w1)"
  then have "s0 = \<lparr>youtube_url = url, output_base_dir = os_path_abspath E base,
      video_filename = None, video_dir = None, audio_dir = None, frames_dir = None\<rparr>"
    by (rule init_fresh)
  then show "video_filename s0 = None" by simp
next
  assume "download_video E s w = (Inr p, s', w')"
  then show "video_filename s' = Some p"
    by (cases rule: download_video_cases) simp_all
next
  assume a: "download_video E s w = (Inl e, s', w') \<and> video_filename s' \<noteq> video_filename s"
  then have run: "download_video E s w = (Inl e, s', w')"
    and ne: "video_filename s' \<noteq> video_filename s" by simp_all
  from run ne show "\<exists>st vd. Download st vd (lit ''video.mp4'') \<in> set (new_events w w')"
  proof (cases rule: download_video_cases)
    case (mkdir_audio_fails vd st w1 path e)
    note t1 = os_makedirs_trace [OF mkdir_audio_fails(3)]
    note t4 = os_makedirs_trace [OF mkdir_audio_fails(4)]
    have "new_events w w' =
        [LogInfo (lit ''Starting video download from: '' @ youtube_url s),
         Makedirs vd, Download st vd (lit ''video.mp4''),
         LogInfo (lit ''Video downloaded successfully to: '' @ path),
         Makedirs (os_path_join E vd (lit ''audio''))]"
      by (simp add: new_events_def t4 t1 logging_info_def)
    then show ?thesis by simp
  next
    case (mkdir_frames_fails vd st w1 path w4 e)
    note t1 = os_makedirs_trace [OF mkdir_frames_fails(3)]
    note t4 = os_makedirs_trace [OF mkdir_frames_fails(4)]
    note t5 = os_makedirs_trace [OF mkdir_frames_fails(5)]
    have "new_events w w' =
        [LogInfo (lit ''Starting video download from: '' @ youtube_url s),
         Makedirs vd, Download st vd (lit ''video.mp4''),
         LogInfo (lit ''Video downloaded successfully to: '' @ path),
         Makedirs (os_path_join E vd (lit ''audio'')),
         Makedirs (os_path_join E vd (lit ''frames''))]"
      by (simp add: new_events_def t5 t4 t1 logging_info_def)
    then show ?thesis by simp
  qed simp_all
  from run ne show "\<exists>p d. video_filename s' = Some p \<and> last (trace w') = Makedirs d \<and>
             (audio_dir s' = Some d \<or> frames_dir s' = Some d)"
  proof (cases rule: download_video_cases)
    case (mkdir_audio_fails vd st w1 path e)
    then show ?thesis by (auto dest!: os_makedirs_trace)
  next
    case (mkdir_frames_fails vd st w1 path w4 e)
    then show ?thesis by (auto dest!: os_makedirs_trace)
  qed simp_all
qed

text \<open>
  Claim C1, amended. \<open>video_filename\<close> is \<open>None\<close> after construction, and it holds the
  returned path whenever \<open>download_video\<close> returns. In every execution of
  \<open>download_video\<close>, returning or raising, \<open>video_filename\<close> holds the path of the
  stored video once \<open>stream.download\<close> has returned (the log line
  \<open>Video downloaded successfully to:\<close> has been written), and is what it was before
  the call otherwise. So a failure at or before the download leaves it as it was, and
  a failure of the creation of the \<open>audio\<close> or of the \<open>frames\<close> directory, the last
  call made, raises with \<open>video_filename\<close> set: it is not reset.
\<close>

theorem video_filename_lifecycle:
  "(init E url base w0 = (Inr s0, w1) \<longrightarrow> video_filename s0 = None) \<and>
   (download_video E s w = (Inr p, s', w') \<longrightarrow> video_filename s' = Some p) \<and>
   (download_video E s w = (r, s', w') \<longrightarrow>
      (\<forall>q. LogInfo (lit ''Video downloaded successfully to: '' @ q) \<in> set (new_events w w')
            \<longrightarrow> video_filename s' = Some q) \<and>
      ((\<forall>q. LogInfo (lit ''Video downloaded successfully to: '' @ q) \<notin> set (new_events w w'))
            \<longrightarrow> video_filename s' = video_filename s)) \<and>
   (download_video E s w = (Inl e, s', w') \<and> video_filename s' \<noteq> video_filename s \<longrightarrow>
      (\<exists>st vd. Download st vd (lit ''video.mp4'') \<in> set (new_events w w')) \<and>
      (\<exists>p d. video_filename s' = Some p \<and> last (trace w') = Makedirs d \<and>
             (audio_dir s' = Some d \<or> frames_dir s' = Some d))) \<and>
   (let u = youtube_url s;
        wa = logging_info (lit ''Starting video download from: '' @ u) w
    in \<forall>t st vd wb path wc.
         YouTube E wa u = None \<and> get_highest_resolution E wa u = Inr (Some st) \<and>
         yt_title E wa u = Inr t \<and>
         vd = os_path_join E (output_base_dir s) (sanitize_filename E t) \<and>
         os_makedirs E vd wa = (None, wb) \<and>
         stream_download E wb st vd (lit ''video.mp4'') = Inr path \<and>
         wc = logging_info (lit ''Video downloaded successfully to: '' @ path)
                (wb\<lparr>trace := trace wb @ [Download st vd (lit ''video.mp4'')]\<rparr>) \<and>
         (fst (os_makedirs E (os_path_join E vd (lit ''audio'')) wc) \<noteq> None \<or>
          fst (os_makedirs E (os_path_join E vd (lit ''frames''))
                 (snd (os_makedirs E (os_path_join E vd (lit ''audio'')) wc))) \<noteq> None) \<longrightarrow>
         fst (download_video E s w) = Inl (CineNotesException (lit ''Failed to download video'')) \<and>
         video_filename (fst (snd (download_video E s w))) = Some path)"
proof -
  have base: "(init E url base w0 = (Inr s0, w1) \<longrightarrow> video_filename s0 = None) \<and>
   (download_video E s w = (Inr p, s', w') \<longrightarrow> video_filename s' = Some p) \<and>
   (download_video E s w = (Inl e, s', w') \<and> video_filename s' \<noteq> video_filename s \<longrightarrow>
      (\<exists>st vd. Download st vd (lit ''video.mp4'') \<in> set (new_events w w')) \<and>
      (\<exists>p d. video_filename s' = Some p \<and> last (trace w') = Makedirs d \<and>
             (audio_dir s' = Some d \<or> frames_dir s' = Some d)))"
    by (rule video_filename_base)
  have logged: "download_video E s w = (r, s', w') \<longrightarrow>
      (\<forall>q. LogInfo (lit ''Video downloaded successfully to: '' @ q) \<in> set (new_events w w')
            \<longrightarrow> video_filename s' = Some q) \<and>
      ((\<forall>q. LogInfo (lit ''Video downloaded successfully to: '' @ q) \<notin> set (new_events w w'))
            \<longrightarrow> video_filename s' = video_filename s)"
    using download_video_logged [of E s w r s' w'] by blast
  have kept: "let u = youtube_url s;
        wa = logging_info (lit ''Starting video download from: '' @ u) w
    in \<forall>t st vd wb path wc.
         YouTube E wa u = None \<and> get_highest_resolution E wa u = Inr (Some st) \<and>
         yt_title E wa u = Inr t \<and>
         vd = os_path_join E (output_base_dir s) (sanitize_filename E t) \<and>
         os_makedirs E vd wa = (None, wb) \<and>
         stream_download E wb st vd (lit ''video.mp4'') = Inr path \<and>
         wc = logging_info (lit ''Video downloaded successfully to: '' @ path)
                (wb\<lparr>trace := trace wb @ [Download st vd (lit ''video.mp4'')]\<rparr>) \<and>
         (fst (os_makedirs E (os_path_join E vd (lit ''audio'')) wc) \<noteq> None \<or>
          fst (os_makedirs E (os_path_join E vd (lit ''frames''))
                 (snd (os_makedirs E (os_path_join E vd (lit ''audio'')) wc))) \<noteq> None) \<longrightarrow>
         fst (download_video E s w) = Inl (CineNotesException (lit ''Failed to download video'')) \<and>
         video_filename (fst (snd (download_video E s w))) = Some path"
    unfolding Let_def
    by (intro allI impI download_video_subdir_fails [of E s w]) blast+
  from base logged kept show ?thesis by blast
qed

text \<open>
  The claim as first stated fails: with an \<open>audio\<close> directory that cannot be created,
  \<open>download_video\<close> on a fresh session raises and leaves \<open>video_filename\<close> set.
\<close>

theorem video_filename_set_by_failed_download:
  "init audio_mkdir_fails_env (lit ''https://youtu.be/x'') (lit ''out'') empty_world =
     (Inr fresh_session, fresh_world) \<and>
   fst (download_video audio_mkdir_fails_env fresh_session fresh_world) =
     Inl (CineNotesException (lit ''Failed to download video'')) \<and>
   video_filename (fst (snd (download_video audio_mkdir_fails_env fresh_session fresh_world))) =
     Some (lit ''/home/out/My Clip Test/video.mp4'')"
  by (simp add: audio_mkdir_fails_download) (simp add: run_simps)

text \<open>
  The parts at work: a fresh session, a download that returns, one that raises after
  the video is stored, one that raises before.
\<close>

theorem video_filename_lifecycle_witness:
  "init demo_env (lit ''https://youtu.be/x'') (lit ''out'') empty_world = (Inr fresh_session, fresh_world) \<and>
   video_filename fresh_session = None \<and>
   download_video demo_env fresh_session fresh_world =
     (Inr (lit ''/home/out/My Clip Test/video.mp4''), acquired_session, acquired_world) \<and>
   video_filename acquired_session = Some (lit ''/home/out/My Clip Test/video.mp4'') \<and>
   fst (download_video audio_mkdir_fails_env fresh_session fresh_world) =
     Inl (CineNotesException (lit ''Failed to download video'')) \<and>
   video_filename (fst (snd (download_video audio_mkdir_fails_env fresh_session fresh_world)))
     \<noteq> video_filename fresh_session \<and>
   (\<exists>st vd. Download st vd (lit ''video.mp4'')
      \<in> set (new_events fresh_world (snd (snd (download_video audio_mkdir_fails_env fresh_session fresh_world))))) \<and>
   last (trace (snd (snd (download_video audio_mkdir_fails_env fresh_session fresh_world)))) =
     Makedirs (lit ''/home/out/My Clip Test/audio'') \<and>
   audio_dir (fst (snd (download_video audio_mkdir_fails_env fresh_session fresh_world))) =
     Some (lit ''/home/out/My Clip Test/audio'') \<and>
   LogInfo (lit ''Video downloaded successfully to: '' @ lit ''/home/out/My Clip Test/video.mp4'')
     \<in> set (new_events fresh_world
              (snd (snd (download_video audio_mkdir_fails_env fresh_session fresh_world)))) \<and>
   video_filename (fst (snd (download_video audio_mkdir_fails_env fresh_session fresh_world))) =
     Some (lit ''/home/out/My Clip Test/video.mp4'') \<and>
   new_events fresh_world (snd (snd (download_video download_fails_env fresh_session fresh_world))) =
     [LogInfo (lit ''Starting video download from: https://youtu.be/x''),
      Makedirs (lit ''/home/out/My Clip Test''),
      Download 22 (lit ''/home/out/My Clip Test'') (lit ''video.mp4'')] \<and>
   video_filename (fst (snd (download_video download_fails_env fresh_session fresh_world))) =
     video_filename fresh_session \<and>
   YouTube audio_mkdir_fails_env
     (logging_info (lit ''Starting video download from: https://youtu.be/x'') fresh_world)
     (lit ''https://youtu.be/x'') = None \<and>
   get_highest_resolution audio_mkdir_fails_env
     (logging_info (lit ''Starting video download from: https://youtu.be/x'') fresh_world)
     (lit ''https://youtu.be/x'') = Inr (Some 22) \<and>
   yt_title audio_mkdir_fails_env
     (logging_info (lit ''Starting video download from: https://youtu.be/x'') fresh_world)
     (lit ''https://youtu.be/x'') = Inr (lit ''My Clip: Test!'') \<and>
   os_path_join audio_mkdir_fails_env (output_base_dir fresh_session)
     (sanitize_filename audio_mkdir_fails_env (lit ''My Clip: Test!'')) = lit ''/home/out/My Clip Test'' \<and>
   fst (os_makedirs audio_mkdir_fails_env (lit ''/home/out/My Clip Test'')
     (logging_info (lit ''Starting video download from: https://youtu.be/x'') fresh_world)) = None \<and>
   stream_download audio_mkdir_fails_env
     (snd (os_makedirs audio_mkdir_fails_env (lit ''/home/out/My Clip Test'')
       (logging_info (lit ''Starting video download from: https://youtu.be/x'') fresh_world)))
     22 (lit ''/home/out/My Clip Test'') (lit ''video.mp4'') =
     Inr (lit ''/home/out/My Clip Test/video.mp4'') \<and>
   os_path_join audio_mkdir_fails_env (lit ''/home/out/My Clip Test'') (lit ''audio'') =
     lit ''/home/out/My Clip Test/audio'' \<and>
   fst (os_makedirs audio_mkdir_fails_env (lit ''/home/out/My Clip Test/audio'')
     (logging_info (lit ''Video downloaded successfully to: /home/out/My Clip Test/video.mp4'')
       ((snd (os_makedirs audio_mkdir_fails_env (lit ''/home/out/My Clip Test'')
          (logging_info (lit ''Starting video download from: https://youtu.be/x'') fresh_world)))
        \<lparr>trace := trace (snd (os_makedirs audio_mkdir_fails_env (lit ''/home/out/My Clip Test'')
          (logging_info (lit ''Starting video download from: https://youtu.be/x'') fresh_world)))
          @ [Download 22 (lit ''/home/out/My Clip Test'') (lit ''video.mp4'')]\<rparr>))) =
     Some (OSError (lit ''Permission denied''))"
  (is ?W)
proof -
  have computed: ?W
    by (simp add: demo_init demo_download audio_mkdir_fails_download download_fails_download)
       (simp add: run_simps)
  show ?thesis
    using computed
      video_filename_lifecycle [where E = demo_env and url = "lit ''https://youtu.be/x''"
        and base = "lit ''out''" and ?w0.0 = empty_world and ?s0.0 = fresh_session
        and ?w1.0 = fresh_world and s = fresh_session and w = fresh_world
        and p = "lit ''/home/out/My Clip Test/video.mp4''" and s' = acquired_session
        and w' = acquired_world]
      video_filename_lifecycle [where E = audio_mkdir_fails_env and s = fresh_session
        and w = fresh_world and e = "CineNotesException (lit ''Failed to download video'')"
        and r = "Inl (CineNotesException (lit ''Failed to download video''))"
        and s' = "fst (snd (download_video audio_mkdir_fails_env fresh_session fresh_world))"
        and w' = "snd (snd (download_video audio_mkdir_fails_env fresh_session fresh_world))"]
      video_filename_lifecycle [where E = download_fails_env and s = fresh_session
        and w = fresh_world
        and r = "Inl (CineNotesException (lit ''Failed to download video''))"
        and s' = "fst (snd (download_video download_fails_env fresh_session fresh_world))"
        and w' = "snd (snd (download_video download_fails_env fresh_session fresh_world))"]
    by simp
qed

lemma extract_without_video:
  "init E url base w0 = (Inr s, w1) \<or> video_filename s = None \<longrightarrow>
     extract_audio E fn s w =
       (Inl (ValueError (lit ''No video has been downloaded. Call download_video() first.'')), s, w) \<and>
     extract_frames E pre ext s w =
       (Inl (ValueError (lit ''No video has been downloaded. Call download_video() first.'')), s, w) \<and>
     (\<forall>m. ValueError (lit ''No video has been downloaded. Call download_video() first.'')
            \<noteq> CineNotesException m) \<and>
     extract_handler msg (CalledProcessError rc cmd out) = CineNotesException msg \<and>
     extract_handler msg (FileNotFoundError m1) = CineNotesException msg \<and>
     extract_handler msg (OSError m2) = CineNotesException msg"
proof
  assume "init E url base w0 = (Inr s, w1) \<or> video_filename s = None"
  then have "video_filename s = None"
    using init_fresh [of E url base w0 s w1] by auto
  then show "extract_audio E fn s w =
       (Inl (ValueError (lit ''No video has been downloaded. Call download_video() first.'')), s, w) \<and>
     extract_frames E pre ext s w =
       (Inl (ValueError (lit ''No video has been downloaded. Call download_video() first.'')), s, w) \<and>
     (\<forall>m. ValueError (lit ''No video has been downloaded. Call download_video() first.'')
            \<noteq> CineNotesException m) \<and>
     extract_handler msg (CalledProcessError rc cmd out) = CineNotesException msg \<and>
     extract_handler msg (FileNotFoundError m1) = CineNotesException msg \<and>
     extract_handler msg (OSError m2) = CineNotesException msg"
    by (simp add: extract_audio_def extract_frames_def extract_handler_def no_video_def)
qed

text \<open>
  Claim C2: on a session without a video both extractors raise a precondition error,
  before anything is written, and that error is of another type than every extraction
  failure. The first part holds: the \<open>ValueError\<close> of the precondition is raised with
  the session and the world unchanged (\<open>extract_without_video\<close>), and the example
  below starts with it. The second part is what the docstrings promise (\<open>ValueError\<close>
  if no video has been downloaded, \<open>CineNotesException\<close> if the extraction fails), and
  the code does not keep it: the clause \<open>except ValueError as ve: raise ve\<close> lets every
  \<open>ValueError\<close> of the body through, also the one that the launch of the decoder
  raises (\<open>extract_value_error_passes\<close>). With a file name or a prefix that holds the
  code point 0, on a session with a video, the extraction fails with a \<open>ValueError\<close>,
  the type of the precondition error, while the same call with \<open>audio.wav\<close> returns.
\<close>

theorem launch_value_error_not_wrapped:
  "extract_audio nul_byte_env (lit ''audio.wav'') fresh_session fresh_world =
     (Inl (ValueError (lit ''No video has been downloaded. Call download_video() first.'')),
      fresh_session, fresh_world) \<and>
   fst (extract_audio nul_byte_env (lit ''audio.wav'') acquired_session acquired_world) =
     Inr (lit ''/home/out/My Clip Test/audio/audio.wav'') \<and>
   fst (extract_audio nul_byte_env (lit ''a'' @ [0] @ lit ''.wav'') acquired_session acquired_world) =
     Inl (ValueError (lit ''embedded null byte'')) \<and>
   fst (extract_frames nul_byte_env (lit ''f'' @ [0]) (lit ''jpg'') acquired_session acquired_world) =
     Inl (ValueError (lit ''embedded null byte''))"
  by (simp add: nul_byte_env_def run_simps)

text \<open>
  Claim C3, amended. In every execution of \<open>download_video\<close>, returning or raising,
  the calls made are an initial part of this sequence: the log line, \<open>os.makedirs\<close> of
  the video directory, the download into it, a log line, \<open>os.makedirs\<close> of the
  \<open>audio\<close> directory, \<open>os.makedirs\<close> of the \<open>frames\<close> directory; an execution
  that returns makes all of them. So each directory is created by one call, the video
  directory before the video is stored, as the target of the download, and the other
  two together right after it. Neither extractor calls \<open>os.makedirs\<close> or changes the
  set of directories.
\<close>

theorem layout_creation_order:
  "(\<exists>st vd p n. new_events w (snd (snd (download_video E s w))) =
      take n [LogInfo (lit ''Starting video download from: '' @ youtube_url s),
              Makedirs vd,
              Download st vd (lit ''video.mp4''),
              LogInfo (lit ''Video downloaded successfully to: '' @ p),
              Makedirs (os_path_join E vd (lit ''audio'')),
              Makedirs (os_path_join E vd (lit ''frames''))]) \<and>
   (download_video E s w = (Inr p, s', w') \<longrightarrow>
      (\<exists>st vd. video_dir s' = Some vd \<and>
         audio_dir s' = Some (os_path_join E vd (lit ''audio'')) \<and>
         frames_dir s' = Some (os_path_join E vd (lit ''frames'')) \<and>
         new_events w w' =
           [LogInfo (lit ''Starting video download from: '' @ youtube_url s),
            Makedirs vd,
            Download st vd (lit ''video.mp4''),
            LogInfo (lit ''Video downloaded successfully to: '' @ p),
            Makedirs (os_path_join E vd (lit ''audio'')),
            Makedirs (os_path_join E vd (lit ''frames''))])) \<and>
   (\<forall>d. Makedirs d \<notin> set (new_events w (snd (snd (extract_audio E fn s w))))) \<and>
   dirs (snd (snd (extract_audio E fn s w))) = dirs w \<and>
   (\<forall>d. Makedirs d \<notin> set (new_events w (snd (snd (extract_frames E pre ext s w))))) \<and>
   dirs (snd (snd (extract_frames E pre ext s w))) = dirs w"
proof (intro conjI impI)
  assume "download_video E s w = (Inr p, s', w')"
  from download_video_new_events [OF this]
  obtain st vd where "s' = s\<lparr>video_dir := Some vd, video_filename := Some p,
             audio_dir := Some (os_path_join E vd (lit ''audio'')),
             frames_dir := Some (os_path_join E vd (lit ''frames''))\<rparr>"
     and "new_events w w' =
            [LogInfo (lit ''Starting video download from: '' @ youtube_url s),
             Makedirs vd, Download st vd (lit ''video.mp4''),
             LogInfo (lit ''Video downloaded successfully to: '' @ p),
             Makedirs (os_path_join E vd (lit ''audio'')),
             Makedirs (os_path_join E vd (lit ''frames''))]"
    by blast
  then show "\<exists>st vd. video_dir s' = Some vd \<and>
         audio_dir s' = Some (os_path_join E vd (lit ''audio'')) \<and>
         frames_dir s' = Some (os_path_join E vd (lit ''frames'')) \<and>
         new_events w w' =
           [LogInfo (lit ''Starting video download from: '' @ youtube_url s),
            Makedirs vd,
            Download st vd (lit ''video.mp4''),
            LogInfo (lit ''Video downloaded successfully to: '' @ p),
            Makedirs (os_path_join E vd (lit ''audio'')),
            Makedirs (os_path_join E vd (lit ''frames''))]"
    by (intro exI [of _ st] exI [of _ vd]) simp
qed (rule download_video_events_prefix extract_audio_events extract_audio_dirs
      extract_frames_events extract_frames_dirs)+

text \<open>
  The claim as first stated fails: the video directory does not exist before the call,
  and its creation comes before the download.
\<close>

theorem video_dir_created_before_download:
  "download_video demo_env fresh_session fresh_world =
     (Inr (lit ''/home/out/My Clip Test/video.mp4''), acquired_session, acquired_world) \<and>
   lit ''/home/out/My Clip Test'' \<notin> dirs fresh_world \<and>
   take 3 (new_events fresh_world acquired_world) =
     [LogInfo (lit ''Starting video download from: https://youtu.be/x''),
      Makedirs (lit ''/home/out/My Clip Test''),
      Download 22 (lit ''/home/out/My Clip Test'') (lit ''video.mp4'')]"
  by (simp add: demo_download demo_new_events) (simp add: state_defs lit_def)

text \<open>The calls of the download that works.\<close>

theorem layout_creation_order_witness:
  "download_video demo_env fresh_session fresh_world =
     (Inr (lit ''/home/out/My Clip Test/video.mp4''), acquired_session, acquired_world) \<and>
   (\<exists>st vd. video_dir acquired_session = Some vd \<and>
      audio_dir acquired_session = Some (posix_join vd (lit ''audio'')) \<and>
      frames_dir acquired_session = Some (posix_join vd (lit ''frames'')) \<and>
      new_events fresh_world acquired_world =
        [LogInfo (lit ''Starting video download from: https://youtu.be/x''),
         Makedirs vd,
         Download st vd (lit ''video.mp4''),
         LogInfo (lit ''Video downloaded successfully to: /home/out/My Clip Test/video.mp4''),
         Makedirs (posix_join vd (lit ''audio'')),
         Makedirs (posix_join vd (lit ''frames''))])"
  using layout_creation_order [where E = demo_env and s = fresh_session and w = fresh_world
      and p = "lit ''/home/out/My Clip Test/video.mp4''" and s' = acquired_session
      and w' = acquired_world]
  by (simp add: demo_download) (simp add: demo_env_def fresh_session_def lit_def)

text \<open>
  Claim C4, amended. Every exception of \<open>download_video\<close> is
  \<open>CineNotesException("Failed to download video")\<close>. When the failure is in the
  resolution of the URL (the \<open>YouTube\<close> constructor, the stream query or the title),
  the session and the set of directories are unchanged. When the resolution worked
  and the failure is the download (or no stream was found), \<open>video_filename\<close> and
  all other attributes but one are unchanged: the video directory has been created
  and \<open>video_dir\<close> assigned before the download, and neither is undone.
\<close>

theorem download_failure_effects:
  "(let u = youtube_url s;
        w0 = logging_info (lit ''Starting video download from: '' @ u) w;
        failed = Inl (CineNotesException (lit ''Failed to download video''))
    in (\<forall>e. fst (download_video E s w) = Inl e \<longrightarrow> Inl e = failed) \<and>
       (YouTube E w0 u \<noteq> None \<or> isl (get_highest_resolution E w0 u) \<or> isl (yt_title E w0 u) \<longrightarrow>
          download_video E s w = (failed, s, w0) \<and> dirs w0 = dirs w) \<and>
       (\<forall>t vd w1.
          YouTube E w0 u = None \<and> yt_title E w0 u = Inr t \<and>
          vd = os_path_join E (output_base_dir s) (sanitize_filename E t) \<and>
          os_makedirs E vd w0 = (None, w1) \<and>
          (get_highest_resolution E w0 u = Inr None \<or>
           (\<exists>st x. get_highest_resolution E w0 u = Inr (Some st) \<and>
                   stream_download E w1 st vd (lit ''video.mp4'') = Inl x)) \<longrightarrow>
          fst (download_video E s w) = failed \<and>
          fst (snd (download_video E s w)) = s\<lparr>video_dir := Some vd\<rparr> \<and>
          vd \<in> dirs (snd (snd (download_video E s w)))))"
proof -
  let ?w0 = "logging_info (lit ''Starting video download from: '' @ youtube_url s) w"
  have a: "\<forall>e. fst (download_video E s w) = Inl e \<longrightarrow>
             Inl e = (Inl (CineNotesException (lit ''Failed to download video'')) :: pyexn + pystr)"
  proof (intro allI impI)
    fix e assume e: "fst (download_video E s w) = Inl e"
    obtain r s' w' where r: "download_video E s w = (r, s', w')" by (cases "download_video E s w")
    with e have "download_video E s w = (Inl e, s', w')" by simp
    then show "Inl e = (Inl (CineNotesException (lit ''Failed to download video'')) :: pyexn + pystr)"
      by (simp add: download_video_raises)
  qed
  have b: "dirs ?w0 = dirs w" by (simp add: logging_info_def)
  show ?thesis
    unfolding Let_def
    using a b download_video_resolve_fails [of E s w] download_video_store_fails [of E s w]
    by blast
qed

text \<open>
  The claim as first stated fails: when the download breaks off, the video directory
  has been created and \<open>video_dir\<close> is set.
\<close>

theorem failed_download_leaves_video_dir:
  "fst (download_video download_fails_env fresh_session fresh_world) =
     Inl (CineNotesException (lit ''Failed to download video'')) \<and>
   video_dir fresh_session = None \<and>
   video_dir (fst (snd (download_video download_fails_env fresh_session fresh_world))) =
     Some (lit ''/home/out/My Clip Test'') \<and>
   lit ''/home/out/My Clip Test'' \<notin> dirs fresh_world \<and>
   lit ''/home/out/My Clip Test''
     \<in> dirs (snd (snd (download_video download_fails_env fresh_session fresh_world)))"
  by (simp add: download_fails_download) (simp add: state_defs lit_def)

text \<open>A refused stream query, and a download that breaks off.\<close>

theorem download_failure_effects_witness:
  "isl (get_highest_resolution forbidden_env
          (logging_info (lit ''Starting video download from: https://youtu.be/x'') fresh_world)
          (lit ''https://youtu.be/x'')) \<and>
   download_video forbidden_env fresh_session fresh_world =
     (Inl (CineNotesException (lit ''Failed to download video'')), fresh_session,
      logging_info (lit ''Starting video download from: https://youtu.be/x'') fresh_world) \<and>
   dirs (logging_info (lit ''Starting video download from: https://youtu.be/x'') fresh_world) =
     dirs fresh_world \<and>
   YouTube download_fails_env
     (logging_info (lit ''Starting video download from: https://youtu.be/x'') fresh_world)
     (lit ''https://youtu.be/x'') = None \<and>
   yt_title download_fails_env
     (logging_info (lit ''Starting video download from: https://youtu.be/x'') fresh_world)
     (lit ''https://youtu.be/x'') = Inr (lit ''My Clip: Test!'') \<and>
   os_path_join download_fails_env (output_base_dir fresh_session)
     (sanitize_filename download_fails_env (lit ''My Clip: Test!'')) = lit ''/home/out/My Clip Test'' \<and>
   fst (os_makedirs download_fails_env (lit ''/home/out/My Clip Test'')
     (logging_info (lit ''Starting video download from: https://youtu.be/x'') fresh_world)) = None \<and>
   get_highest_resolution download_fails_env
     (logging_info (lit ''Starting video download from: https://youtu.be/x'') fresh_world)
     (lit ''https://youtu.be/x'') = Inr (Some 22) \<and>
   stream_download download_fails_env
     (snd (os_makedirs download_fails_env (lit ''/home/out/My Clip Test'')
       (logging_info (lit ''Starting video download from: https://youtu.be/x'') fresh_world)))
     22 (lit ''/home/out/My Clip Test'') (lit ''video.mp4'') = Inl (LibraryError (lit ''IncompleteRead'')) \<and>
   fst (download_video download_fails_env fresh_session fresh_world) =
     Inl (CineNotesException (lit ''Failed to download video'')) \<and>
   fst (snd (download_video download_fails_env fresh_session fresh_world)) =
     fresh_session\<lparr>video_dir := Some (lit ''/home/out/My Clip Test'')\<rparr> \<and>
   lit ''/home/out/My Clip Test''
     \<in> dirs (snd (snd (download_video download_fails_env fresh_session fresh_world)))"
  (is ?W)
proof -
  have computed: ?W
    by (simp add: forbidden_download download_fails_download) (simp add: run_simps)
  show ?thesis
    using computed
      download_failure_effects [where E = forbidden_env and s = fresh_session and w = fresh_world]
      download_failure_effects [where E = download_fails_env and s = fresh_session and w = fresh_world]
    by simp
qed

text \<open>
  Claim C5. On a session with a video, an audio directory and a frames directory,
  \<open>extract_audio\<close> logs and then launches
  \<open>ffmpeg -i <video> -vn -acodec pcm_s16le -ar 44100 -ac 2 <audio path> -y\<close>, where the
  audio path is the audio directory joined with the file name, and returns that path
  when the decoder returns 0; \<open>extract_frames\<close> logs and then launches
  \<open>ffmpeg -i <video> <frames dir>/<prefix>%05d.<format> -y\<close> and returns the frames
  directory when the decoder returns 0.
\<close>

theorem extract_commands:
  "video_filename s = Some v \<and> v \<noteq> [] \<and> audio_dir s = Some ad \<and> frames_dir s = Some fd \<longrightarrow>
   (let audio_path = os_path_join E ad fn;
        log_audio = LogInfo (lit ''Extracting audio to: '' @ audio_path);
        cmd_audio = [lit ''ffmpeg'', lit ''-i'', v, lit ''-vn'', lit ''-acodec'', lit ''pcm_s16le'',
                     lit ''-ar'', lit ''44100'', lit ''-ac'', lit ''2'', audio_path, lit ''-y''];
        log_frames = LogInfo (lit ''Extracting frames to: '' @ fd);
        cmd_frames = [lit ''ffmpeg'', lit ''-i'', v,
                      os_path_join E fd (pre @ lit ''%05d.'' @ ext), lit ''-y'']
    in take 2 (new_events w (snd (snd (extract_audio E fn s w)))) = [log_audio, Run cmd_audio] \<and>
       (popen E (w\<lparr>trace := trace w @ [log_audio]\<rparr>) cmd_audio = Inr (0, out) \<longrightarrow>
          fst (extract_audio E fn s w) = Inr audio_path) \<and>
       take 2 (new_events w (snd (snd (extract_frames E pre ext s w)))) = [log_frames, Run cmd_frames] \<and>
       (popen E (w\<lparr>trace := trace w @ [log_frames]\<rparr>) cmd_frames = Inr (0, out') \<longrightarrow>
          fst (extract_frames E pre ext s w) = Inr fd))"
proof
  assume "video_filename s = Some v \<and> v \<noteq> [] \<and> audio_dir s = Some ad \<and> frames_dir s = Some fd"
  then have a: "video_filename s = Some v" "v \<noteq> []" "audio_dir s = Some ad" "frames_dir s = Some fd"
    by simp_all
  note ua = extract_audio_acquired [OF a(1,2,3)]
  note uf = extract_frames_acquired [OF a(1,2,4)]
  show "let audio_path = os_path_join E ad fn;
        log_audio = LogInfo (lit ''Extracting audio to: '' @ audio_path);
        cmd_audio = [lit ''ffmpeg'', lit ''-i'', v, lit ''-vn'', lit ''-acodec'', lit ''pcm_s16le'',
                     lit ''-ar'', lit ''44100'', lit ''-ac'', lit ''2'', audio_path, lit ''-y''];
        log_frames = LogInfo (lit ''Extracting frames to: '' @ fd);
        cmd_frames = [lit ''ffmpeg'', lit ''-i'', v,
                      os_path_join E fd (pre @ lit ''%05d.'' @ ext), lit ''-y'']
    in take 2 (new_events w (snd (snd (extract_audio E fn s w)))) = [log_audio, Run cmd_audio] \<and>
       (popen E (w\<lparr>trace := trace w @ [log_audio]\<rparr>) cmd_audio = Inr (0, out) \<longrightarrow>
          fst (extract_audio E fn s w) = Inr audio_path) \<and>
       take 2 (new_events w (snd (snd (extract_frames E pre ext s w)))) = [log_frames, Run cmd_frames] \<and>
       (popen E (w\<lparr>trace := trace w @ [log_frames]\<rparr>) cmd_frames = Inr (0, out') \<longrightarrow>
          fst (extract_frames E pre ext s w) = Inr fd)"
    unfolding Let_def ua uf
    by (intro conjI impI case_run_events case_run_ok)
qed

text \<open>The two commands for the session of the example.\<close>

theorem extract_commands_witness:
  "video_filename acquired_session = Some (lit ''/home/out/My Clip Test/video.mp4'') \<and>
   lit ''/home/out/My Clip Test/video.mp4'' \<noteq> [] \<and>
   audio_dir acquired_session = Some (lit ''/home/out/My Clip Test/audio'') \<and>
   frames_dir acquired_session = Some (lit ''/home/out/My Clip Test/frames'') \<and>
   take 2 (new_events acquired_world
     (snd (snd (extract_audio demo_env (lit ''audio.wav'') acquired_session acquired_world)))) =
     [LogInfo (lit ''Extracting audio to: /home/out/My Clip Test/audio/audio.wav''),
      Run [lit ''ffmpeg'', lit ''-i'', lit ''/home/out/My Clip Test/video.mp4'', lit ''-vn'',
           lit ''-acodec'', lit ''pcm_s16le'', lit ''-ar'', lit ''44100'', lit ''-ac'', lit ''2'',
           lit ''/home/out/My Clip Test/audio/audio.wav'', lit ''-y'']] \<and>
   fst (extract_audio demo_env (lit ''audio.wav'') acquired_session acquired_world) =
     Inr (lit ''/home/out/My Clip Test/audio/audio.wav'') \<and>
   take 2 (new_events acquired_world
     (snd (snd (extract_frames demo_env (lit ''frame_'') (lit ''jpg'') acquired_session acquired_world)))) =
     [LogInfo (lit ''Extracting frames to: /home/out/My Clip Test/frames''),
      Run [lit ''ffmpeg'', lit ''-i'', lit ''/home/out/My Clip Test/video.mp4'',
           lit ''/home/out/My Clip Test/frames/frame_%05d.jpg'', lit ''-y'']] \<and>
   fst (extract_frames demo_env (lit ''frame_'') (lit ''jpg'') acquired_session acquired_world) =
     Inr (lit ''/home/out/My Clip Test/frames'')"
  (is ?W)
proof -
  have computed: ?W
    by (simp add: demo_extract_audio demo_extract_frames) (simp add: state_defs new_events_def lit_def)
  show ?thesis
    using computed extract_commands [where E = demo_env and s = acquired_session and w = acquired_world
        and v = "lit ''/home/out/My Clip Test/video.mp4''" and ad = "lit ''/home/out/My Clip Test/audio''"
        and fd = "lit ''/home/out/My Clip Test/frames''" and fn = "lit ''audio.wav''"
        and pre = "lit ''frame_''" and ext = "lit ''jpg''" and out = "[]" and out' = "[]"]
    by simp
qed

text \<open>
  Claim C6, amended. On a session with a video, a decoder that cannot be launched
  (any exception of the launch other than a \<open>ValueError\<close>, so in particular the
  \<open>FileNotFoundError\<close> of a missing executable) and a decoder that returns a non-zero
  code are surfaced alike, as \<open>CineNotesException("Failed to extract audio")\<close> or
  \<open>CineNotesException("Failed to extract frames")\<close>. The exception does not depend on
  the output of the decoder, which is not captured.
\<close>

theorem extraction_failures_uniform:
  "video_filename s = Some v \<and> v \<noteq> [] \<and> audio_dir s = Some ad \<and> frames_dir s = Some fd \<longrightarrow>
   (let audio_path = os_path_join E ad fn;
        log_audio = LogInfo (lit ''Extracting audio to: '' @ audio_path);
        cmd_audio = [lit ''ffmpeg'', lit ''-i'', v, lit ''-vn'', lit ''-acodec'', lit ''pcm_s16le'',
                     lit ''-ar'', lit ''44100'', lit ''-ac'', lit ''2'', audio_path, lit ''-y''];
        log_frames = LogInfo (lit ''Extracting frames to: '' @ fd);
        cmd_frames = [lit ''ffmpeg'', lit ''-i'', v,
                      os_path_join E fd (pre @ lit ''%05d.'' @ ext), lit ''-y''];
        launch_audio = popen E (w\<lparr>trace := trace w @ [log_audio]\<rparr>) cmd_audio;
        launch_frames = popen E (w\<lparr>trace := trace w @ [log_frames]\<rparr>) cmd_frames
    in ((\<exists>e. launch_audio = Inl e \<and> (\<forall>m. e \<noteq> ValueError m)) \<or>
        (\<exists>rc out. launch_audio = Inr (rc, out) \<and> rc \<noteq> 0) \<longrightarrow>
          fst (extract_audio E fn s w) = Inl (CineNotesException (lit ''Failed to extract audio''))) \<and>
       ((\<exists>e. launch_frames = Inl e \<and> (\<forall>m. e \<noteq> ValueError m)) \<or>
        (\<exists>rc out. launch_frames = Inr (rc, out) \<and> rc \<noteq> 0) \<longrightarrow>
          fst (extract_frames E pre ext s w) = Inl (CineNotesException (lit ''Failed to extract frames''))))"
proof
  assume "video_filename s = Some v \<and> v \<noteq> [] \<and> audio_dir s = Some ad \<and> frames_dir s = Some fd"
  then have a: "video_filename s = Some v" "v \<noteq> []" "audio_dir s = Some ad" "frames_dir s = Some fd"
    by simp_all
  note ua = extract_audio_acquired [OF a(1,2,3)]
  note uf = extract_frames_acquired [OF a(1,2,4)]
  show "let audio_path = os_path_join E ad fn;
        log_audio = LogInfo (lit ''Extracting audio to: '' @ audio_path);
        cmd_audio = [lit ''ffmpeg'', lit ''-i'', v, lit ''-vn'', lit ''-acodec'', lit ''pcm_s16le'',
                     lit ''-ar'', lit ''44100'', lit ''-ac'', lit ''2'', audio_path, lit ''-y''];
        log_frames = LogInfo (lit ''Extracting frames to: '' @ fd);
        cmd_frames = [lit ''ffmpeg'', lit ''-i'', v,
                      os_path_join E fd (pre @ lit ''%05d.'' @ ext), lit ''-y''];
        launch_audio = popen E (w\<lparr>trace := trace w @ [log_audio]\<rparr>) cmd_audio;
        launch_frames = popen E (w\<lparr>trace := trace w @ [log_frames]\<rparr>) cmd_frames
    in ((\<exists>e. launch_audio = Inl e \<and> (\<forall>m. e \<noteq> ValueError m)) \<or>
        (\<exists>rc out. launch_audio = Inr (rc, out) \<and> rc \<noteq> 0) \<longrightarrow>
          fst (extract_audio E fn s w) = Inl (CineNotesException (lit ''Failed to extract audio''))) \<and>
       ((\<exists>e. launch_frames = Inl e \<and> (\<forall>m. e \<noteq> ValueError m)) \<or>
        (\<exists>rc out. launch_frames = Inr (rc, out) \<and> rc \<noteq> 0) \<longrightarrow>
          fst (extract_frames E pre ext s w) = Inl (CineNotesException (lit ''Failed to extract frames'')))"
    unfolding Let_def ua uf
    by (intro conjI impI case_run_fails)
qed

text \<open>
  The claim as first stated fails: a missing decoder and a decoder that returns 1 with
  a diagnostic give the same exception, which holds neither the cause nor the output.
\<close>

theorem missing_decoder_same_exception:
  "popen no_ffmpeg_env acquired_world [lit ''ffmpeg''] = Inl (FileNotFoundError (lit ''ffmpeg'')) \<and>
   popen ffmpeg_error_env acquired_world [lit ''ffmpeg''] =
     Inr (1, lit ''Invalid data found when processing input'') \<and>
   fst (extract_audio no_ffmpeg_env (lit ''audio.wav'') acquired_session acquired_world) =
     Inl (CineNotesException (lit ''Failed to extract audio'')) \<and>
   fst (extract_audio ffmpeg_error_env (lit ''audio.wav'') acquired_session acquired_world) =
     Inl (CineNotesException (lit ''Failed to extract audio'')) \<and>
   fst (extract_frames no_ffmpeg_env (lit ''frame_'') (lit ''jpg'') acquired_session acquired_world) =
     Inl (CineNotesException (lit ''Failed to extract frames'')) \<and>
   fst (extract_frames ffmpeg_error_env (lit ''frame_'') (lit ''jpg'') acquired_session acquired_world) =
     Inl (CineNotesException (lit ''Failed to extract frames''))"
  by (simp add: no_ffmpeg_extract ffmpeg_error_extract) (simp add: env_defs)

text \<open>The missing decoder and the failing decoder.\<close>

theorem extraction_failures_uniform_witness:
  "video_filename acquired_session = Some (lit ''/home/out/My Clip Test/video.mp4'') \<and>
   lit ''/home/out/My Clip Test/video.mp4'' \<noteq> [] \<and>
   audio_dir acquired_session = Some (lit ''/home/out/My Clip Test/audio'') \<and>
   frames_dir acquired_session = Some (lit ''/home/out/My Clip Test/frames'') \<and>
   (\<exists>e. (\<forall>w cmd. popen no_ffmpeg_env w cmd = Inl e) \<and> (\<forall>m. e \<noteq> ValueError m)) \<and>
   (\<exists>rc out. (\<forall>w cmd. popen ffmpeg_error_env w cmd = Inr (rc, out)) \<and> rc \<noteq> 0) \<and>
   fst (extract_audio no_ffmpeg_env (lit ''audio.wav'') acquired_session acquired_world) =
     Inl (CineNotesException (lit ''Failed to extract audio'')) \<and>
   fst (extract_frames no_ffmpeg_env (lit ''frame_'') (lit ''jpg'') acquired_session acquired_world) =
     Inl (CineNotesException (lit ''Failed to extract frames'')) \<and>
   fst (extract_audio ffmpeg_error_env (lit ''audio.wav'') acquired_session acquired_world) =
     Inl (CineNotesException (lit ''Failed to extract audio'')) \<and>
   fst (extract_frames ffmpeg_error_env (lit ''frame_'') (lit ''jpg'') acquired_session acquired_world) =
     Inl (CineNotesException (lit ''Failed to extract frames''))"
  (is ?W)
proof -
  have computed: ?W
    by (simp add: no_ffmpeg_extract ffmpeg_error_extract) (simp add: env_defs state_defs lit_def)
  show ?thesis
    using computed
      extraction_failures_uniform [where E = no_ffmpeg_env and s = acquired_session
        and w = acquired_world and v = "lit ''/home/out/My Clip Test/video.mp4''"
        and ad = "lit ''/home/out/My Clip Test/audio''" and fd = "lit ''/home/out/My Clip Test/frames''"
        and fn = "lit ''audio.wav''" and pre = "lit ''frame_''" and ext = "lit ''jpg''"]
      extraction_failures_uniform [where E = ffmpeg_error_env and s = acquired_session
        and w = acquired_world and v = "lit ''/home/out/My Clip Test/video.mp4''"
        and ad = "lit ''/home/out/My Clip Test/audio''" and fd = "lit ''/home/out/My Clip Test/frames''"
        and fn = "lit ''audio.wav''" and pre = "lit ''frame_''" and ext = "lit ''jpg''"]
    by simp
qed

text \<open>
  Claim C9. Creating the layout again raises no error and leaves the tree as it is:
  \<open>os.makedirs\<close> of an existing directory returns and changes no directory; the
  constructor on an existing root returns a session and changes no directory;
  \<open>download_video\<close>, when the video, audio and frames directories of the title
  exist and the resolution and the download work, returns and changes no directory.
  After a constructor and a \<open>download_video\<close> that returned, these directories exist.
\<close>

theorem layout_idempotent:
  "(p \<in> dirs w \<longrightarrow> os_makedirs E p w = (None, w\<lparr>trace := trace w @ [Makedirs p]\<rparr>)) \<and>
   (os_path_abspath E base \<in> dirs w \<longrightarrow>
      (\<exists>s0. fst (init E url base w) = Inr s0) \<and> dirs (snd (init E url base w)) = dirs w) \<and>
   (init E url base w = (Inr s0, w0) \<longrightarrow> output_base_dir s0 \<in> dirs w0) \<and>
   (download_video E s w = (Inr path, s', w') \<longrightarrow>
      (\<exists>vd ad fd. video_dir s' = Some vd \<and> audio_dir s' = Some ad \<and> frames_dir s' = Some fd \<and>
         {vd, ad, fd} \<subseteq> dirs w')) \<and>
   (let u = youtube_url s;
        w1 = logging_info (lit ''Starting video download from: '' @ u) w
    in \<forall>t st vd path.
         YouTube E w1 u = None \<and> get_highest_resolution E w1 u = Inr (Some st) \<and>
         yt_title E w1 u = Inr t \<and>
         vd = os_path_join E (output_base_dir s) (sanitize_filename E t) \<and>
         {vd, os_path_join E vd (lit ''audio''), os_path_join E vd (lit ''frames'')} \<subseteq> dirs w \<and>
         stream_download E (w1\<lparr>trace := trace w1 @ [Makedirs vd]\<rparr>) st vd (lit ''video.mp4'') = Inr path \<longrightarrow>
         fst (download_video E s w) = Inr path \<and>
         dirs (snd (snd (download_video E s w))) = dirs w)"
proof (intro conjI impI)
  assume "p \<in> dirs w"
  then show "os_makedirs E p w = (None, w\<lparr>trace := trace w @ [Makedirs p]\<rparr>)"
    by (rule os_makedirs_existing)
next
  assume "os_path_abspath E base \<in> dirs w"
  then have "os_makedirs E (os_path_abspath E base) w = (None, w\<lparr>trace := trace w @ [Makedirs (os_path_abspath E base)]\<rparr>)"
    by (rule os_makedirs_existing)
  then show "\<exists>s0. fst (init E url base w) = Inr s0" and "dirs (snd (init E url base w)) = dirs w"
    by (simp_all add: init_def Let_def logging_info_def)
next
  assume i: "init E url base w = (Inr s0, w0)"
  obtain r wm where m: "os_makedirs E (os_path_abspath E base) w = (r, wm)"
    by (cases "os_makedirs E (os_path_abspath E base) w")
  with i have r: "r = None" by (cases r) (simp_all add: init_def Let_def)
  with m have "os_path_abspath E base \<in> dirs wm" by (simp add: os_makedirs_created)
  with i m r show "output_base_dir s0 \<in> dirs w0"
    by (auto simp: init_def Let_def logging_info_def)
next
  assume "download_video E s w = (Inr path, s', w')"
  from download_video_new_events [OF this] show "\<exists>vd ad fd. video_dir s' = Some vd \<and> audio_dir s' = Some ad \<and> frames_dir s' = Some fd \<and>
         {vd, ad, fd} \<subseteq> dirs w'"
    by auto
next
  show "let u = youtube_url s;
        w1 = logging_info (lit ''Starting video download from: '' @ u) w
    in \<forall>t st vd path.
         YouTube E w1 u = None \<and> get_highest_resolution E w1 u = Inr (Some st) \<and>
         yt_title E w1 u = Inr t \<and>
         vd = os_path_join E (output_base_dir s) (sanitize_filename E t) \<and>
         {vd, os_path_join E vd (lit ''audio''), os_path_join E vd (lit ''frames'')} \<subseteq> dirs w \<and>
         stream_download E (w1\<lparr>trace := trace w1 @ [Makedirs vd]\<rparr>) st vd (lit ''video.mp4'') = Inr path \<longrightarrow>
         fst (download_video E s w) = Inr path \<and>
         dirs (snd (snd (download_video E s w))) = dirs w"
    by (simp add: download_video_def Let_def os_makedirs_def logging_info_def)
qed

text \<open>The constructor and the download of the example, run a second time.\<close>

theorem layout_idempotent_witness:
  "lit ''/home/out'' \<in> dirs fresh_world \<and>
   os_makedirs demo_env (lit ''/home/out'') fresh_world =
     (None, fresh_world\<lparr>trace := trace fresh_world @ [Makedirs (lit ''/home/out'')]\<rparr>) \<and>
   os_path_abspath demo_env (lit ''out'') \<in> dirs acquired_world \<and>
   fst (init demo_env (lit ''https://youtu.be/x'') (lit ''out'') acquired_world) = Inr fresh_session \<and>
   dirs (snd (init demo_env (lit ''https://youtu.be/x'') (lit ''out'') acquired_world)) =
     dirs acquired_world \<and>
   init demo_env (lit ''https://youtu.be/x'') (lit ''out'') empty_world = (Inr fresh_session, fresh_world) \<and>
   output_base_dir fresh_session \<in> dirs fresh_world \<and>
   download_video demo_env fresh_session fresh_world =
     (Inr (lit ''/home/out/My Clip Test/video.mp4''), acquired_session, acquired_world) \<and>
   {lit ''/home/out/My Clip Test'', lit ''/home/out/My Clip Test/audio'',
    lit ''/home/out/My Clip Test/frames''} \<subseteq> dirs acquired_world \<and>
   fst (download_video demo_env fresh_session acquired_world) =
     Inr (lit ''/home/out/My Clip Test/video.mp4'') \<and>
   dirs (snd (snd (download_video demo_env fresh_session acquired_world))) = dirs acquired_world"
  (is ?W)
proof -
  have computed: ?W
    by (simp add: demo_init demo_download) (simp add: run_simps)
  show ?thesis
    using computed layout_idempotent [where E = demo_env and p = "lit ''/home/out''" and w = fresh_world]
      layout_idempotent [where E = demo_env and base = "lit ''out''" and w = acquired_world
        and url = "lit ''https://youtu.be/x''" and s = fresh_session]
      layout_idempotent [where E = demo_env and base = "lit ''out''" and w = fresh_world
        and url = "lit ''https://youtu.be/x''" and ?w0.0 = fresh_world and ?s0.0 = fresh_session
        and s = fresh_session and path = "lit ''/home/out/My Clip Test/video.mp4''"
        and s' = acquired_session and w' = acquired_world]
    by simp
qed

text \<open>
  Claim C10. The two extractors never assign an attribute: whether they return or
  raise, the session after the call is the session before it. The constructor and
  \<open>download_video\<close> are the only operations that build or update a session.
\<close>

theorem extract_preserves_session:
  "fst (snd (extract_audio E fn s w)) = s \<and> fst (snd (extract_frames E pre ext s w)) = s"
  by (simp add: extract_audio_def extract_frames_def Let_def split: option.splits prod.splits)

end
